theory Spec2Isabelle
  imports Main
begin

section \<open>The credential manager of \<^verbatim>\<open>iam-role-proxy.ts\<close>\<close>

text \<open>
  The manager is a TypeScript class running on a single-threaded event loop. Its fields are
  a record; the promises it creates live in a store indexed by their creation order; the
  two outbound requests are entries of a log; the arrival of a response is an event. A
  JavaScript string is modelled by its code units below 256.
\<close>

subsection \<open>Strings and numbers of the runtime\<close>

text \<open>
  \<^verbatim>\<open>String.prototype.toLowerCase\<close> on code units below 256: the ASCII capitals and the
  Latin-1 capitals (192 to 222, without the multiplication sign 215) move up by 32.
\<close>

definition lower_char :: "char \<Rightarrow> char" where
  "lower_char c =
     (let n = (of_char c :: nat)
      in if (65 \<le> n \<and> n \<le> 90) \<or> (192 \<le> n \<and> n \<le> 222 \<and> n \<noteq> 215)
         then char_of (n + 32) else c)"

definition toLowerCase :: "string \<Rightarrow> string" where
  "toLowerCase s = map lower_char s"

text \<open>
  A JavaScript number holding a time in milliseconds: an integer, or \<^verbatim>\<open>NaN\<close> (what
  \<^verbatim>\<open>new Date(s).getTime()\<close> gives for a string that is no date). Every comparison with
  \<^verbatim>\<open>NaN\<close> is false.
\<close>

datatype number = Num int | NaN

fun number_lt :: "number \<Rightarrow> number \<Rightarrow> bool" where
  "number_lt (Num a) (Num b) = (a < b)"
| "number_lt _ _ = False"

fun number_gt :: "number \<Rightarrow> number \<Rightarrow> bool" where
  "number_gt (Num a) (Num b) = (a > b)"
| "number_gt _ _ = False"

subsection \<open>Data\<close>

text \<open>The interface \<^verbatim>\<open>ClientOptions\<close> (the untyped \<^verbatim>\<open>transport\<close> is left out).\<close>

record ClientOptions =
  endPoint :: string
  accessKey :: string
  secretKey :: string
  useSSL :: "bool option"
  port :: "int option"
  region :: "string option"
  sessionToken :: "string option"

text \<open>
  The storage client is opaque: a client is an object with an identity (the number of
  clients built before it) that remembers the options it was built from.
\<close>

datatype Client = Client (instance_id: nat) (built_from: ClientOptions)

record MetaDataResult =
  AccessKeyId :: string
  SecretAccessKey :: string
  Expiration :: string
  Token :: string

datatype error = FetchError string | SyntaxError string | TypeError | Error string

text \<open>
  What \<^verbatim>\<open>resp.ok && resp.text()\<close> evaluates to: \<^verbatim>\<open>false\<close>, or the body of the response.
\<close>

datatype role = RoleFalse | RoleText string

fun truthy :: "role \<Rightarrow> bool" where
  "truthy RoleFalse = False"
| "truthy (RoleText s) = (s \<noteq> [])"

text \<open>The promise in the field \<^verbatim>\<open>iamRole\<close>.\<close>

datatype role_promise = RolePending | RoleFulfilled role | RoleRejected error

text \<open>
  What a promise to a client resolves to: \<^verbatim>\<open>iamRole && ...\<close> hands back the falsy role
  itself, or the client built from the credentials.
\<close>

datatype client_val = Falsy role | Ready Client

text \<open>
  A promise of the field \<^verbatim>\<open>_client\<close>: waiting for the role promise, waiting for the
  answer to the credentials request it issued for a role, or settled.
\<close>

datatype client_promise =
    AwaitRole
  | AwaitCreds string
  | Fulfilled client_val
  | Rejected error

datatype request = Get (url: string) (timeout: "nat option")

text \<open>
  The fields of the class, \<open>p_client\<close> for \<^verbatim>\<open>_client\<close> (the index of a promise in the store),
  and with them the store of the promises created, the log of the requests issued and
  the number of clients built.
\<close>

record MinioClientManager =
  options :: ClientOptions
  iamRole :: "role_promise option"
  p_client :: "nat option"
  expiration :: number
  promises :: "client_promise list"
  requests :: "request list"
  clients_made :: nat

definition metadataUrl :: string where
  "metadataUrl = ''http://169.254.169.254/latest/meta-data''"

definition role_listing_request :: request where
  "role_listing_request = Get (metadataUrl @ ''/iam/security-credentials/'') (Some 500)"

definition credentials_request :: "string \<Rightarrow> request" where
  "credentials_request r = Get (metadataUrl @ ''/iam/security-credentials/'' @ r) None"

subsection \<open>Initialisation\<close>

definition isAmazonEndpoint :: "string \<Rightarrow> bool" where
  "isAmazonEndpoint endpoint \<longleftrightarrow>
     endpoint = ''s3.amazonaws.com'' \<or> endpoint = ''s3.cn-north-1.amazonaws.com.cn''"

text \<open>The creation of the client object, once its options are accepted.\<close>

definition allocate_Client :: "ClientOptions \<Rightarrow> MinioClientManager \<Rightarrow> Client \<times> MinioClientManager" where
  "allocate_Client opts m =
     (Client (clients_made m) opts, m\<lparr>clients_made := Suc (clients_made m)\<rparr>)"

text \<open>
  \<^verbatim>\<open>new Client(opts)\<close>. The constructor of the storage library validates the options and
  throws on those it rejects (an empty endpoint, for one). The library is not part of
  the repository, so its check is the parameter \<open>rejects\<close>: the error thrown for the
  options, or \<open>None\<close> when they are accepted.
\<close>

definition new_Client ::
  "(ClientOptions \<Rightarrow> error option) \<Rightarrow> ClientOptions \<Rightarrow> MinioClientManager
     \<Rightarrow> error + Client \<times> MinioClientManager" where
  "new_Client rejects opts m =
     (case rejects opts of Some e \<Rightarrow> Inl e | None \<Rightarrow> Inr (allocate_Client opts m))"

text \<open>\<^verbatim>\<open>Promise.resolve(v)\<close>: a new promise of the store, already fulfilled.\<close>

definition Promise_resolve :: "client_val \<Rightarrow> MinioClientManager \<Rightarrow> nat \<times> MinioClientManager" where
  "Promise_resolve v m = (length (promises m), m\<lparr>promises := promises m @ [Fulfilled v]\<rparr>)"

text \<open>The fields as the class declares them, before \<^verbatim>\<open>init\<close> runs.\<close>

definition fresh :: "ClientOptions \<Rightarrow> MinioClientManager" where
  "fresh opts = \<lparr>options = opts, iamRole = None, p_client = None, expiration = Num 0,
     promises = [], requests = [], clients_made = 0\<rparr>"

text \<open>
  The two assignments \<^verbatim>\<open>init\<close> makes on both of its persistent paths. What
  \<^verbatim>\<open>new Client\<close> throws leaves \<^verbatim>\<open>init\<close>, and with it the constructor of the manager.
\<close>

definition persistent_client ::
  "(ClientOptions \<Rightarrow> error option) \<Rightarrow> MinioClientManager \<Rightarrow> error + MinioClientManager" where
  "persistent_client rejects m =
     (let m1 = m\<lparr>expiration := Num (- 1)\<rparr>
      in case new_Client rejects (options m1) m1 of
           Inl e \<Rightarrow> Inl e
         | Inr (c, m2) \<Rightarrow>
             (let (p, m3) = Promise_resolve (Ready c) m2 in Inr (m3\<lparr>p_client := Some p\<rparr>)))"

definition init ::
  "(ClientOptions \<Rightarrow> error option) \<Rightarrow> MinioClientManager \<Rightarrow> error + MinioClientManager" where
  "init rejects m =
     (if isAmazonEndpoint (toLowerCase (endPoint (options m))) then
        if length (accessKey (options m)) = 0 \<or> length (secretKey (options m)) = 0
        then Inr m
        else persistent_client rejects m
      else persistent_client rejects m)"

text \<open>The constructor of the class: the manager, or what \<^verbatim>\<open>init\<close> threw.\<close>

definition constructor ::
  "(ClientOptions \<Rightarrow> error option) \<Rightarrow> ClientOptions \<Rightarrow> error + MinioClientManager" where
  "constructor rejects opts = init rejects (fresh opts)"

subsection \<open>The refresh\<close>

text \<open>The role inside a template literal: \<^verbatim>\<open>`${iamRole}`\<close>.\<close>

fun role_string :: "role \<Rightarrow> string" where
  "role_string RoleFalse = ''false''"
| "role_string (RoleText s) = s"

text \<open>
  \<^verbatim>\<open>getClientFromEc2MetaData\<close> up to its \<^verbatim>\<open>fetch\<close>: it throws on a falsy role, and
  otherwise issues the credentials request for the role. It runs inside a \<^verbatim>\<open>then\<close>
  callback, so what it throws rejects the promise of that callback.
\<close>

definition getClientFromEc2MetaData :: "role \<Rightarrow> MinioClientManager \<Rightarrow> client_promise \<times> MinioClientManager" where
  "getClientFromEc2MetaData r m =
     (if \<not> truthy r then (Rejected (Error ''Unable to find IAM role for EC2 instance.''), m)
      else (AwaitCreds (role_string r),
            m\<lparr>requests := requests m @ [credentials_request (role_string r)]\<rparr>))"

text \<open>
  \<^verbatim>\<open>toClient\<close>, the continuation of the credentials request. The parsing of a date is the
  runtime's and is the parameter \<open>getTime\<close> (\<^verbatim>\<open>s => new Date(s).getTime()\<close>). The options
  it builds are the fixed host name and the three strings of the response, with no
  port, TLS flag or region: nothing of the caller's reaches the library's validation
  here, and the client is created.
\<close>

definition toClient ::
  "(string \<Rightarrow> number) \<Rightarrow> MetaDataResult \<Rightarrow> MinioClientManager \<Rightarrow> Client \<times> MinioClientManager" where
  "toClient getTime md m =
     allocate_Client
       \<lparr>endPoint = ''s3.amazonaws.com'', accessKey = AccessKeyId md,
        secretKey = SecretAccessKey md, useSSL = None, port = None, region = None,
        sessionToken = Some (Token md)\<rparr>
       (m\<lparr>expiration := getTime (Expiration md)\<rparr>)"

text \<open>The callback \<^verbatim>\<open>iamRole => iamRole && this.getClientFromEc2MetaData(iamRole)\<close>.\<close>

definition on_role :: "role \<Rightarrow> MinioClientManager \<Rightarrow> client_promise \<times> MinioClientManager" where
  "on_role r m = (if truthy r then getClientFromEc2MetaData r m else (Fulfilled (Falsy r), m))"

text \<open>
  \<^verbatim>\<open>rp.then(callback)\<close> for the role promise in state \<open>rp\<close>: the state the new promise
  starts in. On a settled role promise the callback runs in a microtask, before any
  response is handled; it reads no field of the manager, so it is run here.
\<close>

fun then_on_role :: "role_promise \<Rightarrow> MinioClientManager \<Rightarrow> client_promise \<times> MinioClientManager" where
  "then_on_role RolePending m = (AwaitRole, m)"
| "then_on_role (RoleFulfilled r) m = on_role r m"
| "then_on_role (RoleRejected e) m = (Rejected e, m)"

text \<open>\<^verbatim>\<open>this.iamRole || fetch(..., {timeout: 500}).then(resp => resp.ok && resp.text())\<close>.\<close>

definition iamRole_or_fetch :: "MinioClientManager \<Rightarrow> role_promise \<times> MinioClientManager" where
  "iamRole_or_fetch m =
     (case iamRole m of
        Some rp \<Rightarrow> (rp, m)
      | None \<Rightarrow> (RolePending,
                 m\<lparr>iamRole := Some RolePending, requests := requests m @ [role_listing_request]\<rparr>))"

text \<open>\<^verbatim>\<open>createClient\<close> at the time \<open>now\<close> (\<^verbatim>\<open>Date.now()\<close>); it returns the field \<^verbatim>\<open>_client\<close>.\<close>

definition createClient :: "int \<Rightarrow> MinioClientManager \<Rightarrow> nat option \<times> MinioClientManager" where
  "createClient now m =
     (if number_lt (expiration m) (Num 0) then (p_client m, m)
      else if p_client m \<noteq> None \<and> number_gt (expiration m) (Num now) then (p_client m, m)
      else
        let (rp, m1) = iamRole_or_fetch m;
            (st, m2) = then_on_role rp m1;
            p = length (promises m2)
        in (Some p, m2\<lparr>promises := promises m2 @ [st], p_client := Some p\<rparr>))"

definition client :: "int \<Rightarrow> MinioClientManager \<Rightarrow> nat option \<times> MinioClientManager" where
  "client now m = (let (p, m1) = createClient now m in (p, m1\<lparr>p_client := p\<rparr>))"

subsection \<open>Responses\<close>

text \<open>
  The answer to the role-listing request: \<^verbatim>\<open>fetch\<close> rejects (the 500 ms timeout, no
  route), or the response is not \<^verbatim>\<open>ok\<close>, or it is and has a body.
\<close>

datatype role_response = RoleFetchFailed error | RoleNotOk | RoleOk string

fun settle_role :: "role_response \<Rightarrow> role_promise" where
  "settle_role (RoleFetchFailed e) = RoleRejected e"
| "settle_role RoleNotOk = RoleFulfilled RoleFalse"
| "settle_role (RoleOk body) = RoleFulfilled (RoleText body)"

text \<open>
  When the role promise settles, the callbacks registered on it run in the order of
  their registration: every promise still waiting for the role moves on.
\<close>

fun run_callbacks ::
  "role_promise \<Rightarrow> client_promise list \<Rightarrow> MinioClientManager \<Rightarrow> client_promise list \<times> MinioClientManager" where
  "run_callbacks rp [] m = ([], m)"
| "run_callbacks rp (AwaitRole # ps) m =
     (let (st, m1) = then_on_role rp m; (ps', m2) = run_callbacks rp ps m1 in (st # ps', m2))"
| "run_callbacks rp (p # ps) m =
     (let (ps', m2) = run_callbacks rp ps m in (p # ps', m2))"

definition role_arrives :: "role_response \<Rightarrow> MinioClientManager \<Rightarrow> MinioClientManager" where
  "role_arrives resp m =
     (if iamRole m = Some RolePending then
        let rp = settle_role resp;
            (ps, m1) = run_callbacks rp (promises m) m
        in m1\<lparr>iamRole := Some rp, promises := ps\<rparr>
      else m)"

text \<open>
  The answer to the credentials request of promise \<open>k\<close>: \<^verbatim>\<open>fetch\<close> or \<^verbatim>\<open>resp.json()\<close>
  rejects, or the body parses to a \<^verbatim>\<open>MetaDataResult\<close> and \<^verbatim>\<open>toClient\<close> runs.
\<close>

datatype creds_response = CredsFailed error | CredsJson MetaDataResult

definition creds_arrive ::
  "(string \<Rightarrow> number) \<Rightarrow> nat \<Rightarrow> creds_response \<Rightarrow> MinioClientManager \<Rightarrow> MinioClientManager" where
  "creds_arrive getTime k resp m =
     (if k < length (promises m) then
        (case promises m ! k of
           AwaitCreds r \<Rightarrow>
             (case resp of
                CredsFailed e \<Rightarrow> m\<lparr>promises := (promises m)[k := Rejected e]\<rparr>
              | CredsJson md \<Rightarrow>
                  let (c, m1) = toClient getTime md m
                  in m1\<lparr>promises := (promises m1)[k := Fulfilled (Ready c)]\<rparr>)
         | _ \<Rightarrow> m)
      else m)"

subsection \<open>The event loop\<close>

datatype event =
    Call int
  | RoleArrives role_response
  | CredsArrive nat creds_response

fun step :: "(string \<Rightarrow> number) \<Rightarrow> event \<Rightarrow> MinioClientManager \<Rightarrow> MinioClientManager" where
  "step getTime (Call now) m = snd (client now m)"
| "step getTime (RoleArrives resp) m = role_arrives resp m"
| "step getTime (CredsArrive k resp) m = creds_arrive getTime k resp m"

fun run :: "(string \<Rightarrow> number) \<Rightarrow> event list \<Rightarrow> MinioClientManager \<Rightarrow> MinioClientManager" where
  "run getTime [] m = m"
| "run getTime (e # es) m = run getTime es (step getTime e m)"

text \<open>The state of the promise a call returned (\<open>None\<close>: no such promise).\<close>

definition promise_state :: "MinioClientManager \<Rightarrow> nat option \<Rightarrow> client_promise option" where
  "promise_state m p =
     (case p of None \<Rightarrow> None
      | Some k \<Rightarrow> if k < length (promises m) then Some (promises m ! k) else None)"

subsection \<open>Forwarding\<close>

text \<open>
  What a forwarded operation with arguments \<open>args\<close> comes to, read off the promise that
  \<^verbatim>\<open>client()\<close> returned: still waiting; rejected with a cause; fulfilled with the falsy
  role and nothing called; a method of a storage client called on that client (its
  result or error is relayed); or the name looked up on the falsy primitive instead of
  a client (a \<^verbatim>\<open>TypeError\<close> unless the primitive has such a member).
\<close>

datatype 'a outcome =
    Waiting
  | Failed error
  | Empty role
  | Invoked Client string 'a
  | OnPrimitive role string

text \<open>
  The callback of \<^verbatim>\<open>getObject\<close>, \<^verbatim>\<open>client => client && client.getObject(bucket, key, cb)\<close>,
  chained on a promise in the given state.
\<close>

fun getObject_then :: "'a \<Rightarrow> client_promise \<Rightarrow> 'a outcome" where
  "getObject_then args (Rejected e) = Failed e"
| "getObject_then args (Fulfilled (Falsy r)) = Empty r"
| "getObject_then args (Fulfilled (Ready c)) = Invoked c ''getObject'' args"
| "getObject_then args _ = Waiting"

text \<open>
  The callback of the proxy for a key that is a function of the client,
  \<^verbatim>\<open>client => client[sKey].apply(client, args)\<close>.
\<close>

fun proxy_then :: "string \<Rightarrow> 'a \<Rightarrow> client_promise \<Rightarrow> 'a outcome" where
  "proxy_then sKey args (Rejected e) = Failed e"
| "proxy_then sKey args (Fulfilled (Falsy r)) = OnPrimitive r sKey"
| "proxy_then sKey args (Fulfilled (Ready c)) = Invoked c sKey args"
| "proxy_then sKey args _ = Waiting"

text \<open>
  \<^verbatim>\<open>p.then(callback)\<close> on what \<^verbatim>\<open>client()\<close> returned, observed in a later state \<open>m\<close> of the
  manager; \<^verbatim>\<open>undefined.then\<close> is a \<^verbatim>\<open>TypeError\<close>.
\<close>

definition observe :: "(client_promise \<Rightarrow> 'a outcome) \<Rightarrow> nat option \<Rightarrow> MinioClientManager \<Rightarrow> 'a outcome" where
  "observe callback p m =
     (case promise_state m p of None \<Rightarrow> Failed TypeError | Some st \<Rightarrow> callback st)"

text \<open>
  Both forwarders call \<^verbatim>\<open>client()\<close> once and chain their callback; they return the
  operation's promise, as a function of the later state, and the manager after the call.
\<close>

definition getObject ::
  "int \<Rightarrow> 'a \<Rightarrow> MinioClientManager \<Rightarrow> (MinioClientManager \<Rightarrow> 'a outcome) \<times> MinioClientManager" where
  "getObject now args m = (let (p, m1) = client now m in (observe (getObject_then args) p, m1))"

definition proxy_method ::
  "int \<Rightarrow> string \<Rightarrow> 'a \<Rightarrow> MinioClientManager \<Rightarrow> (MinioClientManager \<Rightarrow> 'a outcome) \<times> MinioClientManager" where
  "proxy_method now sKey args m =
     (let (p, m1) = client now m in (observe (proxy_then sKey args) p, m1))"

text \<open>
  A burst of \<^verbatim>\<open>client()\<close> calls with no response in between: the promises returned, in
  order, and the manager afterwards.
\<close>

fun calls :: "int list \<Rightarrow> MinioClientManager \<Rightarrow> nat option list \<times> MinioClientManager" where
  "calls [] m = ([], m)"
| "calls (t # ts) m =
     (let (p, m1) = client t m; (ps, m2) = calls ts m1 in (p # ps, m2))"

text \<open>The mode as \<^verbatim>\<open>createClient\<close> tells it: a negative expiration means persistent.\<close>

datatype CredentialMode = Persistent | Dynamic

definition mode :: "MinioClientManager \<Rightarrow> CredentialMode" where
  "mode m = (if number_lt (expiration m) (Num 0) then Persistent else Dynamic)"

text \<open>
  \<^verbatim>\<open>createClient\<close> passes both of its early returns at the time \<open>now\<close> and starts a
  refresh.
\<close>

definition refreshes :: "int \<Rightarrow> MinioClientManager \<Rightarrow> bool" where
  "refreshes now m \<longleftrightarrow> \<not> number_lt (expiration m) (Num 0)
     \<and> \<not> (p_client m \<noteq> None \<and> number_gt (expiration m) (Num now))"

text \<open>The options \<^verbatim>\<open>toClient\<close> hands to \<^verbatim>\<open>new Client\<close>.\<close>

definition client_from :: "MetaDataResult \<Rightarrow> ClientOptions" where
  "client_from md = \<lparr>endPoint = ''s3.amazonaws.com'', accessKey = AccessKeyId md,
     secretKey = SecretAccessKey md, useSSL = None, port = None, region = None,
     sessionToken = Some (Token md)\<rparr>"

subsection \<open>Vocabulary of the properties\<close>

text \<open>
  A spelling of a host name that differs from it in the case of ASCII letters only:
  position by position, the same character or its capital.
\<close>

definition upper_ascii :: "char \<Rightarrow> char" where
  "upper_ascii d =
     (let n = (of_char d :: nat) in if 97 \<le> n \<and> n \<le> 122 then char_of (n - 32) else d)"

definition mixed_case_spelling :: "string \<Rightarrow> string \<Rightarrow> bool" where
  "mixed_case_spelling e t = list_all2 (\<lambda>c d. c = d \<or> c = upper_ascii d) e t"

text \<open>The manager \<^verbatim>\<open>init\<close> leaves on its persistent paths when the client is created.\<close>

definition persistent_manager :: "ClientOptions \<Rightarrow> MinioClientManager" where
  "persistent_manager opts =
     (fresh opts)\<lparr>p_client := Some 0, expiration := Num (- 1),
        promises := [Fulfilled (Ready (Client 0 opts))], clients_made := 1\<rparr>"

definition recognized :: "ClientOptions \<Rightarrow> bool" where
  "recognized opts = isAmazonEndpoint (toLowerCase (endPoint opts))"

definition keys_missing :: "ClientOptions \<Rightarrow> bool" where
  "keys_missing opts \<longleftrightarrow> accessKey opts = [] \<or> secretKey opts = []"

text \<open>
  The state a promise chained on the role promise is in once the callback has run, and
  the requests the callback issues.
\<close>

fun settled_state :: "role_promise \<Rightarrow> client_promise" where
  "settled_state RolePending = AwaitRole"
| "settled_state (RoleFulfilled r) =
     (if truthy r then AwaitCreds (role_string r) else Fulfilled (Falsy r))"
| "settled_state (RoleRejected e) = Rejected e"

fun settled_reqs :: "role_promise \<Rightarrow> request list" where
  "settled_reqs (RoleFulfilled r) =
     (if truthy r then [credentials_request (role_string r)] else [])"
| "settled_reqs _ = []"


text \<open>Invariants of a manager that started without static keys.\<close>

fun needs_role :: "client_promise \<Rightarrow> bool" where
  "needs_role (AwaitCreds r) = True"
| "needs_role (Fulfilled (Ready c)) = True"
| "needs_role _ = False"

definition role_known :: "MinioClientManager \<Rightarrow> bool" where
  "role_known m \<longleftrightarrow> (\<exists>r. r \<noteq> [] \<and> iamRole m = Some (RoleFulfilled (RoleText r)))"

definition handles_have_role :: "MinioClientManager \<Rightarrow> bool" where
  "handles_have_role m \<longleftrightarrow> (\<forall>p \<in> set (promises m). needs_role p \<longrightarrow> role_known m)"

definition valid_client :: "MinioClientManager \<Rightarrow> bool" where
  "valid_client m \<longleftrightarrow> (\<forall>p. p_client m = Some p \<longrightarrow> p < length (promises m))"

text \<open>Before the answer to the role listing: every promise waits for the role.\<close>

definition awaiting :: "MinioClientManager \<Rightarrow> bool" where
  "awaiting m \<longleftrightarrow> expiration m = Num 0 \<and> valid_client m
     \<and> (\<forall>p \<in> set (promises m). p = AwaitRole)
     \<and> (iamRole m = None \<and> promises m = [] \<and> requests m = [] \<and> p_client m = None
        \<or> iamRole m = Some RolePending \<and> promises m \<noteq> []
           \<and> requests m = [role_listing_request])"

text \<open>A role promise that settled without a role name.\<close>

fun no_role :: "role_promise \<Rightarrow> bool" where
  "no_role RolePending = False"
| "no_role (RoleFulfilled r) = (\<not> truthy r)"
| "no_role (RoleRejected e) = True"

definition stuck :: "role_promise \<Rightarrow> MinioClientManager \<Rightarrow> bool" where
  "stuck rp m \<longleftrightarrow> iamRole m = Some rp \<and> expiration m = Num 0 \<and> valid_client m
     \<and> promises m \<noteq> []
     \<and> (\<forall>p \<in> set (promises m). p = settled_state rp)
     \<and> requests m = [role_listing_request]"

fun settled :: "client_promise \<Rightarrow> bool" where
  "settled (Fulfilled v) = True"
| "settled (Rejected e) = True"
| "settled _ = False"

subsection \<open>Example inputs\<close>

text \<open>
  \<^verbatim>\<open>new Date(s).getTime()\<close> on the two date strings of the examples, \<^verbatim>\<open>NaN\<close> elsewhere.
\<close>

definition example_getTime :: "string \<Rightarrow> number" where
  "example_getTime s =
     (if s = ''2099-01-01T00:00:00Z'' then Num 4070908800000
      else if s = ''1969-12-31T23:59:59Z'' then Num (- 1000)
      else NaN)"

text \<open>
  An example of the library's check: an empty endpoint is rejected, everything else is
  accepted.
\<close>

definition example_rejects :: "ClientOptions \<Rightarrow> error option" where
  "example_rejects opts =
     (if endPoint opts = [] then Some (Error ''Invalid endPoint'') else None)"

definition unnamed_options :: ClientOptions where
  "unnamed_options = \<lparr>endPoint = [], accessKey = ''minio'', secretKey = ''minio123'',
     useSSL = Some False, port = Some 9000, region = None, sessionToken = None\<rparr>"

definition iam_options :: ClientOptions where
  "iam_options = \<lparr>endPoint = ''S3.AmazonAWS.com'', accessKey = [], secretKey = [],
     useSSL = Some False, port = Some 9000, region = None, sessionToken = None\<rparr>"

definition static_options :: ClientOptions where
  "static_options = \<lparr>endPoint = ''s3.amazonaws.com'', accessKey = ''AKIA'',
     secretKey = ''wJalr'', useSSL = Some True, port = Some 443, region = None,
     sessionToken = None\<rparr>"

definition minio_options :: ClientOptions where
  "minio_options = \<lparr>endPoint = ''minio-service.kubeflow'', accessKey = ''minio'',
     secretKey = ''minio123'', useSSL = Some False, port = Some 9000, region = None,
     sessionToken = None\<rparr>"

definition worker_credentials :: MetaDataResult where
  "worker_credentials = \<lparr>AccessKeyId = ''AK1'', SecretAccessKey = ''SK1'',
     Expiration = ''2099-01-01T00:00:00Z'', Token = ''TK1''\<rparr>"

definition pre_epoch_credentials :: MetaDataResult where
  "pre_epoch_credentials = \<lparr>AccessKeyId = ''AK0'', SecretAccessKey = ''SK0'',
     Expiration = ''1969-12-31T23:59:59Z'', Token = ''TK0''\<rparr>"

text \<open>A manager whose credentials came back with an expiration before 1970.\<close>

definition pre_epoch_manager :: MinioClientManager where
  "pre_epoch_manager =
     run example_getTime
       [Call 1000, RoleArrives (RoleOk ''worker-role''),
        CredsArrive 0 (CredsJson pre_epoch_credentials)]
       (fresh iam_options)"

text \<open>The manager of the worker role once its credentials have arrived.\<close>

definition worker_manager :: MinioClientManager where
  "worker_manager =
     run example_getTime
       [Call 1000, RoleArrives (RoleOk ''worker-role''),
        CredsArrive 0 (CredsJson worker_credentials)]
       (fresh iam_options)"

section \<open>Initialisation and endpoint recognition\<close>

lemma lower_upper: "lower_char d = d \<Longrightarrow> lower_char (upper_ascii d) = d"
proof (cases "97 \<le> (of_char d :: nat) \<and> (of_char d :: nat) \<le> 122")
  case True
  define n where "n = (of_char d :: nat) - 32"
  have range: "65 \<le> n \<and> n \<le> 90" using True by (simp add: n_def) arith
  have up: "upper_ascii d = char_of n" using True by (simp add: upper_ascii_def n_def)
  have "(of_char (char_of n) :: nat) = n" using range by simp
  then have "lower_char (char_of n) = char_of (n + 32)"
    using range by (simp add: lower_char_def)
  moreover have "char_of (n + 32) = d" using True by (simp add: n_def)
  ultimately show ?thesis using up by simp
next
  case False
  assume "lower_char d = d"
  then show ?thesis using False by (auto simp: upper_ascii_def Let_def)
qed

lemma spelling_lowers:
  "list_all2 (\<lambda>c d. c = d \<or> c = upper_ascii d) e t \<Longrightarrow> \<forall>d \<in> set t. lower_char d = d
     \<Longrightarrow> map lower_char e = t"
proof (induction e t rule: list_all2_induct)
  case Nil
  show ?case by simp
next
  case (Cons c e d t)
  have fixed: "lower_char d = d" using Cons.prems by simp
  have "c = d \<or> c = upper_ascii d" by (rule Cons.hyps(1))
  then have "lower_char c = d" using fixed lower_upper [OF fixed] by blast
  moreover have "map lower_char e = t" using Cons.IH Cons.prems by simp
  ultimately show ?case by simp
qed

lemma global_lower: "\<forall>d \<in> set ''s3.amazonaws.com''. lower_char d = d"
  by (simp add: lower_char_def)

lemma china_lower: "\<forall>d \<in> set ''s3.cn-north-1.amazonaws.com.cn''. lower_char d = d"
  by (simp add: lower_char_def)

lemma spelling_recognized:
  assumes "mixed_case_spelling e ''s3.amazonaws.com''
     \<or> mixed_case_spelling e ''s3.cn-north-1.amazonaws.com.cn''"
  shows "isAmazonEndpoint (toLowerCase e)"
  using assms
proof
  assume "mixed_case_spelling e ''s3.amazonaws.com''"
  then have "toLowerCase e = ''s3.amazonaws.com''"
    unfolding mixed_case_spelling_def toLowerCase_def
    by (rule spelling_lowers) (rule global_lower)
  then show ?thesis unfolding isAmazonEndpoint_def by (rule disjI1)
next
  assume "mixed_case_spelling e ''s3.cn-north-1.amazonaws.com.cn''"
  then have "toLowerCase e = ''s3.cn-north-1.amazonaws.com.cn''"
    unfolding mixed_case_spelling_def toLowerCase_def
    by (rule spelling_lowers) (rule china_lower)
  then show ?thesis unfolding isAmazonEndpoint_def by (rule disjI2)
qed

lemma constructor_dynamic:
  "recognized opts \<Longrightarrow> keys_missing opts \<Longrightarrow> constructor rejects opts = Inr (fresh opts)"
  by (auto simp: constructor_def init_def fresh_def recognized_def keys_missing_def)

lemma constructor_persistent:
  "\<not> (recognized opts \<and> keys_missing opts) \<Longrightarrow> rejects opts = None \<Longrightarrow>
   constructor rejects opts = Inr (persistent_manager opts)"
  by (auto simp: constructor_def init_def fresh_def recognized_def keys_missing_def
      persistent_client_def new_Client_def allocate_Client_def Promise_resolve_def
      persistent_manager_def)

lemma constructor_throws:
  "\<not> (recognized opts \<and> keys_missing opts) \<Longrightarrow> rejects opts = Some e \<Longrightarrow>
   constructor rejects opts = Inl e"
  by (auto simp: constructor_def init_def fresh_def recognized_def keys_missing_def
      persistent_client_def new_Client_def)

lemma constructed_cases:
  assumes "constructor rejects opts = Inr mgr"
  shows "recognized opts \<and> keys_missing opts \<and> mgr = fresh opts
    \<or> \<not> (recognized opts \<and> keys_missing opts) \<and> mgr = persistent_manager opts"
proof (cases "recognized opts \<and> keys_missing opts")
  case True
  then show ?thesis using assms constructor_dynamic [of opts rejects] by simp
next
  case False
  show ?thesis
  proof (cases "rejects opts")
    case None
    then show ?thesis using False assms constructor_persistent [of opts rejects] by simp
  next
    case (Some e)
    then show ?thesis using False assms constructor_throws [of opts rejects e] by simp
  qed
qed

lemma mode_fresh: "mode (fresh opts) = Dynamic"
  by (simp add: mode_def fresh_def)

lemma mode_persistent_manager: "mode (persistent_manager opts) = Persistent"
  by (simp add: mode_def persistent_manager_def fresh_def)

lemma mode_constructor:
  "constructor rejects opts = Inr mgr \<Longrightarrow>
   mode mgr = Dynamic \<longleftrightarrow> recognized opts \<and> keys_missing opts"
  using constructed_cases [of rejects opts mgr] mode_fresh [of opts]
    mode_persistent_manager [of opts]
  by auto

lemma dynamic_is_fresh:
  "constructor rejects opts = Inr mgr \<Longrightarrow> mode mgr = Dynamic \<Longrightarrow> mgr = fresh opts"
  using constructed_cases [of rejects opts mgr] mode_persistent_manager [of opts] by auto

lemma persistent_is_built:
  "constructor rejects opts = Inr mgr \<Longrightarrow> mode mgr = Persistent \<Longrightarrow> mgr = persistent_manager opts"
  using constructed_cases [of rejects opts mgr] mode_fresh [of opts] by auto

lemma iam_options_recognized: "isAmazonEndpoint (toLowerCase (endPoint iam_options))"
  by code_simp

lemma iam_constructed: "constructor rejects iam_options = Inr (fresh iam_options)"
  using iam_options_recognized
  by (intro constructor_dynamic) (simp_all add: recognized_def keys_missing_def iam_options_def)

lemma static_constructed:
  "constructor example_rejects static_options = Inr (persistent_manager static_options)"
proof (rule constructor_persistent)
  show "\<not> (recognized static_options \<and> keys_missing static_options)"
    by (simp add: keys_missing_def static_options_def)
  show "example_rejects static_options = None"
    by (simp add: example_rejects_def static_options_def)
qed

text \<open>
  C4 (amended). Construction selects the dynamic mode exactly when the lowercased
  endpoint is one of the two Amazon hosts and the access key or the secret key is empty;
  the manager is then as declared: expiration 0, no client promise, no client built. In
  every other case \<^verbatim>\<open>init\<close> sets the expiration to -1 and calls \<^verbatim>\<open>new Client\<close> on the
  options: when the library accepts them the manager is persistent and its field holds a
  promise already fulfilled with the client built from the options; when the library
  rejects them the constructor of the manager throws the library's error. No request is
  issued in any case.
\<close>

theorem init_selects_mode:
  "(isAmazonEndpoint (toLowerCase (endPoint opts))
      \<and> (accessKey opts = [] \<or> secretKey opts = [])
     \<longrightarrow> constructor rejects opts = Inr (fresh opts))
   \<and> (\<not> (isAmazonEndpoint (toLowerCase (endPoint opts))
          \<and> (accessKey opts = [] \<or> secretKey opts = []))
       \<and> rejects opts = None
     \<longrightarrow> (\<exists>mgr. constructor rejects opts = Inr mgr))
   \<and> (\<not> (isAmazonEndpoint (toLowerCase (endPoint opts))
          \<and> (accessKey opts = [] \<or> secretKey opts = []))
       \<and> rejects opts = Some e
     \<longrightarrow> constructor rejects opts = Inl e)
   \<and> (\<forall>mgr. constructor rejects opts = Inr mgr \<longrightarrow>
        (mode mgr = Dynamic \<longleftrightarrow>
           isAmazonEndpoint (toLowerCase (endPoint opts))
           \<and> (accessKey opts = [] \<or> secretKey opts = []))
        \<and> (mode mgr = Dynamic \<longrightarrow>
             expiration mgr = Num 0 \<and> p_client mgr = None
             \<and> promises mgr = [] \<and> clients_made mgr = 0)
        \<and> (mode mgr \<noteq> Dynamic \<longrightarrow>
             mode mgr = Persistent
             \<and> expiration mgr = Num (- 1)
             \<and> p_client mgr = Some 0
             \<and> promises mgr = [Fulfilled (Ready (Client 0 opts))])
        \<and> requests mgr = [])"
proof -
  have cond: "isAmazonEndpoint (toLowerCase (endPoint opts))
      \<and> (accessKey opts = [] \<or> secretKey opts = [])
    \<longleftrightarrow> recognized opts \<and> keys_missing opts"
    by (simp add: recognized_def keys_missing_def)
  have a: "recognized opts \<and> keys_missing opts \<longrightarrow> constructor rejects opts = Inr (fresh opts)"
    by (simp add: constructor_dynamic)
  have b: "\<not> (recognized opts \<and> keys_missing opts) \<and> rejects opts = None
     \<longrightarrow> (\<exists>mgr. constructor rejects opts = Inr mgr)"
    using constructor_persistent [of opts rejects] by blast
  have c: "\<not> (recognized opts \<and> keys_missing opts) \<and> rejects opts = Some e
     \<longrightarrow> constructor rejects opts = Inl e"
    using constructor_throws [of opts rejects e] by blast
  have d: "\<forall>mgr. constructor rejects opts = Inr mgr \<longrightarrow>
        (mode mgr = Dynamic \<longleftrightarrow> recognized opts \<and> keys_missing opts)
        \<and> (mode mgr = Dynamic \<longrightarrow>
             expiration mgr = Num 0 \<and> p_client mgr = None
             \<and> promises mgr = [] \<and> clients_made mgr = 0)
        \<and> (mode mgr \<noteq> Dynamic \<longrightarrow>
             mode mgr = Persistent
             \<and> expiration mgr = Num (- 1)
             \<and> p_client mgr = Some 0
             \<and> promises mgr = [Fulfilled (Ready (Client 0 opts))])
        \<and> requests mgr = []"
  proof (intro allI impI)
    fix mgr assume built: "constructor rejects opts = Inr mgr"
    from constructed_cases [OF built] show "(mode mgr = Dynamic \<longleftrightarrow> recognized opts \<and> keys_missing opts)
        \<and> (mode mgr = Dynamic \<longrightarrow>
             expiration mgr = Num 0 \<and> p_client mgr = None
             \<and> promises mgr = [] \<and> clients_made mgr = 0)
        \<and> (mode mgr \<noteq> Dynamic \<longrightarrow>
             mode mgr = Persistent
             \<and> expiration mgr = Num (- 1)
             \<and> p_client mgr = Some 0
             \<and> promises mgr = [Fulfilled (Ready (Client 0 opts))])
        \<and> requests mgr = []"
      by (auto simp: mode_def fresh_def persistent_manager_def)
  qed
  from a b c d show ?thesis unfolding cond by blast
qed

theorem init_selects_mode_witness:
  "constructor example_rejects iam_options = Inr (fresh iam_options)
   \<and> mode (fresh iam_options) = Dynamic
   \<and> p_client (fresh iam_options) = None
   \<and> constructor example_rejects static_options = Inr (persistent_manager static_options)
   \<and> mode (persistent_manager static_options) = Persistent
   \<and> promises (persistent_manager static_options)
       = [Fulfilled (Ready (Client 0 static_options))]
   \<and> constructor example_rejects unnamed_options = Inl (Error ''Invalid endPoint'')"
proof -
  have a: "isAmazonEndpoint (toLowerCase (endPoint iam_options))
      \<and> (accessKey iam_options = [] \<or> secretKey iam_options = [])"
    using iam_options_recognized by (simp add: iam_options_def)
  have b: "\<not> (isAmazonEndpoint (toLowerCase (endPoint unnamed_options))
          \<and> (accessKey unnamed_options = [] \<or> secretKey unnamed_options = []))
       \<and> example_rejects unnamed_options = Some (Error ''Invalid endPoint'')"
    by (simp add: unnamed_options_def example_rejects_def)
  have c: "mode (persistent_manager static_options) \<noteq> Dynamic"
    by (simp add: mode_persistent_manager)
  show ?thesis
    using init_selects_mode [of iam_options example_rejects]
      init_selects_mode [of static_options example_rejects,
        THEN conjunct2, THEN conjunct2, THEN conjunct2, THEN spec,
        of "persistent_manager static_options"]
      init_selects_mode [of unnamed_options example_rejects "Error ''Invalid endPoint''"]
      a b c static_constructed mode_fresh [of iam_options]
    by (simp add: fresh_def)
qed

text \<open>
  Not every options value gets a manager: the library rejects an empty endpoint, and
  the constructor of the manager throws instead of caching a client.
\<close>

theorem rejected_options_counterexample:
  "\<not> isAmazonEndpoint (toLowerCase (endPoint unnamed_options))
   \<and> example_rejects unnamed_options = Some (Error ''Invalid endPoint'')
   \<and> constructor example_rejects unnamed_options = Inl (Error ''Invalid endPoint'')"
proof -
  have a: "\<not> isAmazonEndpoint (toLowerCase (endPoint unnamed_options))"
    by (simp add: unnamed_options_def toLowerCase_def isAmazonEndpoint_def)
  have b: "example_rejects unnamed_options = Some (Error ''Invalid endPoint'')"
    by (simp add: unnamed_options_def example_rejects_def)
  have nd: "\<not> (recognized unnamed_options \<and> keys_missing unnamed_options)"
    using a by (simp add: recognized_def)
  from constructor_throws [of unnamed_options example_rejects, OF nd b] a b
  show ?thesis by blast
qed

text \<open>
  C10. The endpoint is recognised exactly when its lowercased form equals one of the two
  host names, character for character. Hence every spelling of either name that differs
  in the case of letters only is recognised, and selects the dynamic mode when a key is
  empty; an endpoint whose lowercased form is neither name is persistent whatever the
  keys are, whenever the library accepts the options.
\<close>

theorem endpoint_recognition_ignores_case:
  "(recognized opts \<longleftrightarrow>
      toLowerCase (endPoint opts) = ''s3.amazonaws.com''
      \<or> toLowerCase (endPoint opts) = ''s3.cn-north-1.amazonaws.com.cn'')
   \<and> (mixed_case_spelling (endPoint opts) ''s3.amazonaws.com''
        \<or> mixed_case_spelling (endPoint opts) ''s3.cn-north-1.amazonaws.com.cn''
       \<longrightarrow> recognized opts)
   \<and> (recognized opts \<and> (accessKey opts = [] \<or> secretKey opts = [])
       \<longrightarrow> constructor rejects opts = Inr (fresh opts) \<and> mode (fresh opts) = Dynamic)
   \<and> (\<not> recognized opts \<and> rejects opts = None
       \<longrightarrow> constructor rejects opts = Inr (persistent_manager opts)
           \<and> mode (persistent_manager opts) = Persistent)
   \<and> (\<forall>mgr. \<not> recognized opts \<and> constructor rejects opts = Inr mgr
       \<longrightarrow> mode mgr = Persistent)"
proof -
  have "recognized opts \<longleftrightarrow>
      toLowerCase (endPoint opts) = ''s3.amazonaws.com''
      \<or> toLowerCase (endPoint opts) = ''s3.cn-north-1.amazonaws.com.cn''"
    by (simp add: recognized_def isAmazonEndpoint_def)
  moreover have "mixed_case_spelling (endPoint opts) ''s3.amazonaws.com''
        \<or> mixed_case_spelling (endPoint opts) ''s3.cn-north-1.amazonaws.com.cn''
       \<longrightarrow> recognized opts"
    using spelling_recognized [of "endPoint opts"] by (auto simp: recognized_def)
  moreover have "recognized opts \<and> (accessKey opts = [] \<or> secretKey opts = [])
       \<longrightarrow> constructor rejects opts = Inr (fresh opts) \<and> mode (fresh opts) = Dynamic"
    by (simp add: constructor_dynamic keys_missing_def mode_fresh)
  moreover have "\<not> recognized opts \<and> rejects opts = None
       \<longrightarrow> constructor rejects opts = Inr (persistent_manager opts)
           \<and> mode (persistent_manager opts) = Persistent"
    by (simp add: constructor_persistent mode_persistent_manager)
  moreover have "\<forall>mgr. \<not> recognized opts \<and> constructor rejects opts = Inr mgr
       \<longrightarrow> mode mgr = Persistent"
    using constructed_cases [of rejects opts] mode_persistent_manager [of opts] by auto
  ultimately show ?thesis by blast
qed

theorem endpoint_recognition_ignores_case_witness:
  "mixed_case_spelling (endPoint iam_options) ''s3.amazonaws.com''
   \<and> recognized iam_options
   \<and> constructor example_rejects iam_options = Inr (fresh iam_options)
   \<and> mode (fresh iam_options) = Dynamic
   \<and> \<not> recognized minio_options
   \<and> constructor example_rejects minio_options = Inr (persistent_manager minio_options)
   \<and> mode (persistent_manager minio_options) = Persistent"
proof -
  have a: "mixed_case_spelling (endPoint iam_options) ''s3.amazonaws.com''"
    by code_simp
  have b: "accessKey iam_options = []" by (simp add: iam_options_def)
  have c: "toLowerCase (endPoint minio_options) = ''minio-service.kubeflow''"
    by code_simp
  have d: "example_rejects minio_options = None"
    by (simp add: example_rejects_def minio_options_def)
  show ?thesis
    using endpoint_recognition_ignores_case [of iam_options example_rejects]
      endpoint_recognition_ignores_case [of minio_options example_rejects] a b c d
    by auto
qed


section \<open>Calls and responses, step by step\<close>

lemma client_persistent:
  "number_lt (expiration m) (Num 0) \<Longrightarrow> client now m = (p_client m, m)"
  by (simp add: client_def createClient_def)

lemma client_cached:
  "p_client m = Some p \<Longrightarrow> number_gt (expiration m) (Num now) \<Longrightarrow> client now m = (Some p, m)"
  by (simp add: client_def createClient_def)

lemma client_cases:
  "number_lt (expiration m) (Num 0) \<or> (\<exists>p. p_client m = Some p \<and> number_gt (expiration m) (Num now))
   \<or> refreshes now m"
  by (auto simp: refreshes_def)

lemma then_on_role_eq:
  "then_on_role rp m = (settled_state rp, m\<lparr>requests := requests m @ settled_reqs rp\<rparr>)"
  by (cases rp) (simp_all add: on_role_def getClientFromEc2MetaData_def)

lemma client_refresh:
  assumes "refreshes now m"
  shows "client now m = (Some (length (promises m)),
     m\<lparr>iamRole := Some (case iamRole m of None \<Rightarrow> RolePending | Some rp \<Rightarrow> rp),
       p_client := Some (length (promises m)),
       promises := promises m @ [settled_state (case iamRole m of None \<Rightarrow> RolePending | Some rp \<Rightarrow> rp)],
       requests := requests m @ (case iamRole m of None \<Rightarrow> [role_listing_request] | Some rp \<Rightarrow> settled_reqs rp)\<rparr>)"
proof (cases "iamRole m")
  case None
  then show ?thesis using assms
    by (auto simp: client_def createClient_def refreshes_def iamRole_or_fetch_def Let_def)
next
  case (Some rp)
  then show ?thesis using assms
    by (auto simp: client_def createClient_def refreshes_def iamRole_or_fetch_def Let_def
        then_on_role_eq)
qed

lemma run_callbacks_eq:
  "run_callbacks rp ps m =
     (map (\<lambda>p. if p = AwaitRole then settled_state rp else p) ps,
      m\<lparr>requests := requests m @ concat (map (\<lambda>p. if p = AwaitRole then settled_reqs rp else []) ps)\<rparr>)"
proof (induction ps arbitrary: m)
  case Nil
  then show ?case by simp
next
  case (Cons p ps)
  then show ?case by (cases p) (simp_all add: then_on_role_eq)
qed

lemma role_arrives_eq:
  assumes "iamRole m = Some RolePending"
  shows "role_arrives resp m =
     m\<lparr>iamRole := Some (settle_role resp),
       promises := map (\<lambda>p. if p = AwaitRole then settled_state (settle_role resp) else p) (promises m),
       requests := requests m @ concat (map (\<lambda>p. if p = AwaitRole then settled_reqs (settle_role resp) else []) (promises m))\<rparr>"
  using assms by (simp add: role_arrives_def run_callbacks_eq Let_def)

lemma role_arrives_idle: "iamRole m \<noteq> Some RolePending \<Longrightarrow> role_arrives resp m = m"
  by (simp add: role_arrives_def)

lemma creds_arrive_fields:
  "iamRole (creds_arrive getTime k resp m) = iamRole m"
  "requests (creds_arrive getTime k resp m) = requests m"
  "length (promises (creds_arrive getTime k resp m)) = length (promises m)"
  "p_client (creds_arrive getTime k resp m) = p_client m"
  by (auto simp: creds_arrive_def toClient_def allocate_Client_def
      split: client_promise.splits creds_response.splits)

lemma creds_arrive_json:
  assumes "k < length (promises m)" "promises m ! k = AwaitCreds r"
  shows "creds_arrive getTime k (CredsJson md) m =
    m\<lparr>expiration := getTime (Expiration md), clients_made := Suc (clients_made m),
      promises := (promises m)[k := Fulfilled (Ready (Client (clients_made m) (client_from md)))]\<rparr>"
  using assms by (simp add: creds_arrive_def toClient_def allocate_Client_def client_from_def)

lemma creds_arrive_failed:
  assumes "k < length (promises m)" "promises m ! k = AwaitCreds r"
  shows "creds_arrive getTime k (CredsFailed e) m = m\<lparr>promises := (promises m)[k := Rejected e]\<rparr>"
  using assms by (simp add: creds_arrive_def)

lemma first_call:
  "client t (fresh opts) = (Some 0,
     (fresh opts)\<lparr>iamRole := Some RolePending, p_client := Some 0,
        promises := [AwaitRole], requests := [role_listing_request]\<rparr>)"
proof -
  have "refreshes t (fresh opts)" by (simp add: refreshes_def fresh_def)
  then show ?thesis by (simp add: client_refresh) (simp add: fresh_def)
qed


section \<open>Invariants\<close>

lemma persistent_step:
  assumes "number_lt (expiration m) (Num 0)" "iamRole m = None"
    "\<forall>p \<in> set (promises m). \<exists>v. p = Fulfilled v"
  shows "step getTime ev m = m"
proof (cases ev)
  case (Call now)
  then show ?thesis using assms(1) by (simp add: client_persistent)
next
  case (RoleArrives resp)
  then show ?thesis using assms(2) by (simp add: role_arrives_def)
next
  case (CredsArrive k resp)
  have "k < length (promises m) \<Longrightarrow> \<exists>v. promises m ! k = Fulfilled v"
    using assms(3) by (metis nth_mem)
  then show ?thesis using CredsArrive by (auto simp: creds_arrive_def)
qed

lemma persistent_run:
  assumes "number_lt (expiration m) (Num 0)" "iamRole m = None"
    "\<forall>p \<in> set (promises m). \<exists>v. p = Fulfilled v"
  shows "run getTime evs m = m"
  using assms by (induction evs) (simp_all add: persistent_step)

lemma step_role_known:
  assumes "iamRole m = Some (RoleFulfilled (RoleText r))" "r \<noteq> []"
  shows "iamRole (step getTime ev m) = Some (RoleFulfilled (RoleText r))
    \<and> (requests (step getTime ev m) = requests m
       \<or> requests (step getTime ev m) = requests m @ [credentials_request r])"
proof (cases ev)
  case (Call now)
  consider "number_lt (expiration m) (Num 0)"
    | p where "p_client m = Some p" "number_gt (expiration m) (Num now)"
    | "refreshes now m"
    using client_cases [of m now] by blast
  then show ?thesis
  proof cases
    case 1
    then show ?thesis using Call assms by (simp add: client_persistent)
  next
    case 2
    then show ?thesis using Call assms by (simp add: client_cached)
  next
    case 3
    then show ?thesis using Call assms by (simp add: client_refresh)
  qed
next
  case (RoleArrives resp)
  then show ?thesis using assms by (simp add: role_arrives_idle)
next
  case (CredsArrive k resp)
  then show ?thesis using assms by (simp add: creds_arrive_fields)
qed

lemma run_role_known:
  assumes "iamRole m = Some (RoleFulfilled (RoleText r))" "r \<noteq> []"
  shows "iamRole (run getTime evs m) = Some (RoleFulfilled (RoleText r))
    \<and> (\<exists>n. requests (run getTime evs m) = requests m @ replicate n (credentials_request r))"
  using assms
proof (induction evs arbitrary: m)
  case Nil
  then show ?case by simp
next
  case (Cons ev evs)
  note st = step_role_known [OF Cons.prems, of getTime ev]
  from st have role: "iamRole (step getTime ev m) = Some (RoleFulfilled (RoleText r))" by simp
  from Cons.IH [OF role Cons.prems(2)] obtain n where
    n: "requests (run getTime evs (step getTime ev m))
        = requests (step getTime ev m) @ replicate n (credentials_request r)"
    and r': "iamRole (run getTime evs (step getTime ev m)) = Some (RoleFulfilled (RoleText r))"
    by blast
  from st have "requests (step getTime ev m) = requests m @ replicate 0 (credentials_request r)
      \<or> requests (step getTime ev m) = requests m @ replicate 1 (credentials_request r)"
    by auto
  then obtain k where "requests (step getTime ev m) = requests m @ replicate k (credentials_request r)"
    by blast
  with n have "requests (run getTime evs (step getTime ev m))
        = requests m @ replicate (k + n) (credentials_request r)"
    by (simp add: replicate_add)
  with r' show ?case by auto
qed

lemma credentials_is_not_listing: "credentials_request r \<noteq> role_listing_request"
  by (simp add: credentials_request_def role_listing_request_def)

lemma needs_role_settled: "needs_role (settled_state rp) \<Longrightarrow> \<exists>r. r \<noteq> [] \<and> rp = RoleFulfilled (RoleText r)"
  by (cases rp; cases "case rp of RoleFulfilled r \<Rightarrow> r | _ \<Rightarrow> RoleFalse") (auto split: if_splits)

lemma handles_have_role_step:
  assumes "handles_have_role m"
  shows "handles_have_role (step getTime ev m)"
proof (cases ev)
  case (Call now)
  consider "number_lt (expiration m) (Num 0)"
    | p where "p_client m = Some p" "number_gt (expiration m) (Num now)"
    | "refreshes now m"
    using client_cases [of m now] by blast
  then show ?thesis
  proof cases
    case 1
    then show ?thesis using Call assms by (simp add: client_persistent)
  next
    case 2
    then show ?thesis using Call assms by (simp add: client_cached)
  next
    case 3
    show ?thesis
    proof (cases "iamRole m")
      case None
      then have "\<not> role_known m" by (simp add: role_known_def)
      with assms have "\<forall>p \<in> set (promises m). \<not> needs_role p"
        by (auto simp: handles_have_role_def)
      then show ?thesis using Call 3 None
        by (simp add: client_refresh handles_have_role_def)
    next
      case (Some rp)
      then show ?thesis using Call 3 assms needs_role_settled [of rp]
        by (auto simp: client_refresh handles_have_role_def role_known_def)
    qed
  qed
next
  case (RoleArrives resp)
  show ?thesis
  proof (cases "iamRole m = Some RolePending")
    case True
    then have "\<not> role_known m" by (simp add: role_known_def)
    with assms have "\<forall>p \<in> set (promises m). \<not> needs_role p"
      by (auto simp: handles_have_role_def)
    then show ?thesis using RoleArrives True needs_role_settled [of "settle_role resp"]
      by (auto simp: role_arrives_eq handles_have_role_def role_known_def)
  next
    case False
    then show ?thesis using RoleArrives assms by (simp add: role_arrives_idle)
  qed
next
  case (CredsArrive k resp)
  have known: "role_known (creds_arrive getTime k resp m) = role_known m"
    by (simp add: role_known_def creds_arrive_fields)
  show ?thesis
  proof (cases "k < length (promises m) \<and> (\<exists>r. promises m ! k = AwaitCreds r)")
    case True
    then have "needs_role (promises m ! k)" by auto
    with True assms have rk: "role_known m"
      unfolding handles_have_role_def by (metis nth_mem)
    show ?thesis using CredsArrive known rk by (simp add: handles_have_role_def)
  next
    case False
    then have "creds_arrive getTime k resp m = m"
      by (auto simp: creds_arrive_def split: client_promise.splits)
    then show ?thesis using CredsArrive assms by simp
  qed
qed

lemma handles_have_role_run:
  "handles_have_role m \<Longrightarrow> handles_have_role (run getTime evs m)"
  by (induction evs arbitrary: m) (simp_all add: handles_have_role_step)

lemma handles_have_role_fresh: "handles_have_role (fresh opts)"
  by (simp add: handles_have_role_def fresh_def)



lemma no_role_reqs: "no_role rp \<Longrightarrow> settled_reqs rp = []"
  by (cases rp) auto

lemma no_role_not_creds: "no_role rp \<Longrightarrow> settled_state rp \<noteq> AwaitCreds r"
  by (cases rp) auto

lemma awaiting_client:
  assumes "awaiting m"
  shows "awaiting (snd (client t m))
    \<and> (\<exists>p. fst (client t m) = Some p \<and> p < length (promises (snd (client t m))))
    \<and> length (promises m) \<le> length (promises (snd (client t m)))"
proof -
  have nl: "\<not> number_lt (expiration m) (Num 0)" using assms by (simp add: awaiting_def)
  show ?thesis
  proof (cases "refreshes t m")
    case True
    then show ?thesis using assms
      by (auto simp: client_refresh awaiting_def valid_client_def)
  next
    case False
    with nl obtain p where p: "p_client m = Some p" "number_gt (expiration m) (Num t)"
      by (auto simp: refreshes_def)
    then show ?thesis using assms by (auto simp: client_cached awaiting_def valid_client_def)
  qed
qed

lemma awaiting_calls:
  assumes "awaiting m"
  shows "awaiting (snd (calls ts m))
    \<and> (\<forall>p \<in> set (fst (calls ts m)). \<exists>k. p = Some k \<and> k < length (promises (snd (calls ts m))))
    \<and> length (promises m) \<le> length (promises (snd (calls ts m)))"
  using assms
proof (induction ts arbitrary: m)
  case Nil
  then show ?case by simp
next
  case (Cons t ts)
  note c = awaiting_client [OF Cons.prems, of t]
  note ih = Cons.IH [of "snd (client t m)"]
  from c ih show ?case
    by (auto simp: split_def Let_def)
qed

lemma awaiting_role_arrives:
  assumes "awaiting m" "promises m \<noteq> []"
  shows "iamRole (role_arrives resp m) = Some (settle_role resp)"
    "length (promises (role_arrives resp m)) = length (promises m)"
    "\<forall>p \<in> set (promises (role_arrives resp m)). p = settled_state (settle_role resp)"
    "requests (role_arrives resp m)
       = role_listing_request # concat (replicate (length (promises m)) (settled_reqs (settle_role resp)))"
    "expiration (role_arrives resp m) = Num 0"
    "valid_client (role_arrives resp m)"
proof -
  from assms have pend: "iamRole m = Some RolePending" and reqs: "requests m = [role_listing_request]"
    and all: "\<forall>p \<in> set (promises m). p = AwaitRole"
    and e: "expiration m = Num 0" and v: "valid_client m"
    by (auto simp: awaiting_def)
  from all have rep: "promises m = replicate (length (promises m)) AwaitRole"
    by (simp add: replicate_length_same)
  show "iamRole (role_arrives resp m) = Some (settle_role resp)"
    by (simp add: role_arrives_eq [OF pend])
  show "length (promises (role_arrives resp m)) = length (promises m)"
    by (simp add: role_arrives_eq [OF pend])
  show "\<forall>p \<in> set (promises (role_arrives resp m)). p = settled_state (settle_role resp)"
    using all by (simp add: role_arrives_eq [OF pend])
  have "concat (map (\<lambda>p. if p = AwaitRole then settled_reqs (settle_role resp) else []) (promises m))
      = concat (replicate (length (promises m)) (settled_reqs (settle_role resp)))"
    by (subst rep) (simp add: map_replicate_const)
  then show "requests (role_arrives resp m)
       = role_listing_request # concat (replicate (length (promises m)) (settled_reqs (settle_role resp)))"
    using reqs by (simp add: role_arrives_eq [OF pend])
  show "expiration (role_arrives resp m) = Num 0" using e by (simp add: role_arrives_eq [OF pend])
  show "valid_client (role_arrives resp m)" using v
    by (simp add: role_arrives_eq [OF pend] valid_client_def)
qed

lemma awaiting_then_stuck:
  assumes "awaiting m" "promises m \<noteq> []" "no_role (settle_role resp)"
  shows "stuck (settle_role resp) (role_arrives resp m)"
  using awaiting_role_arrives [OF assms(1,2), of resp] assms(2,3)
  by (auto simp: stuck_def no_role_reqs)

lemma stuck_client:
  assumes "no_role rp" "stuck rp m"
  shows "stuck rp (snd (client t m))
    \<and> (\<exists>p. fst (client t m) = Some p \<and> p < length (promises (snd (client t m)))
         \<and> promises (snd (client t m)) ! p = settled_state rp)"
proof -
  have nl: "\<not> number_lt (expiration m) (Num 0)" using assms by (simp add: stuck_def)
  show ?thesis
  proof (cases "refreshes t m")
    case True
    then show ?thesis using assms
      by (auto simp: client_refresh stuck_def valid_client_def no_role_reqs)
  next
    case False
    with nl obtain p where p: "p_client m = Some p" "number_gt (expiration m) (Num t)"
      by (auto simp: refreshes_def)
    then show ?thesis using assms by (auto simp: client_cached stuck_def valid_client_def)
  qed
qed

lemma stuck_step:
  assumes "no_role rp" "stuck rp m"
  shows "stuck rp (step getTime ev m)"
proof (cases ev)
  case (Call t)
  then show ?thesis using stuck_client [OF assms, of t] by simp
next
  case (RoleArrives resp)
  from assms have "iamRole m \<noteq> Some RolePending" by (auto simp: stuck_def)
  then show ?thesis using RoleArrives assms by (simp add: role_arrives_idle)
next
  case (CredsArrive k resp)
  have "k < length (promises m) \<Longrightarrow> promises m ! k = settled_state rp"
    using assms(2) unfolding stuck_def by (metis nth_mem)
  then have "creds_arrive getTime k resp m = m"
    using no_role_not_creds [OF assms(1)]
    by (auto simp: creds_arrive_def split: client_promise.splits)
  then show ?thesis using CredsArrive assms by simp
qed

lemma stuck_run: "no_role rp \<Longrightarrow> stuck rp m \<Longrightarrow> stuck rp (run getTime evs m)"
  by (induction evs arbitrary: m) (simp_all add: stuck_step)

lemma first_call_awaiting: "awaiting (snd (client t (fresh opts))) \<and> promises (snd (client t (fresh opts))) = [AwaitRole]"
  unfolding first_call by (simp add: awaiting_def valid_client_def fresh_def)

lemma observe_settled:
  assumes "p = Some k" "k < length (promises m)" "\<forall>q \<in> set (promises m). q = st"
  shows "observe f p m = f st"
proof -
  have "promises m ! k = st" using assms(2,3) by (metis nth_mem)
  then show ?thesis using assms(1,2) by (simp add: observe_def promise_state_def)
qed

lemma proxy_then_cases:
  "(proxy_then sKey args st = Invoked c k a) = (st = Fulfilled (Ready c) \<and> k = sKey \<and> a = args)"
  "(getObject_then args st = Invoked c k a) = (st = Fulfilled (Ready c) \<and> k = ''getObject'' \<and> a = args)"
  by (cases st; cases "case st of Fulfilled v \<Rightarrow> v | _ \<Rightarrow> Falsy RoleFalse"; auto)+

lemma settled_step:
  assumes "promise_state m (Some k) = Some st" "settled st"
  shows "promise_state (step getTime ev m) (Some k) = Some st"
proof -
  from assms(1) have k: "k < length (promises m)" "promises m ! k = st"
    by (auto simp: promise_state_def split: if_splits)
  show ?thesis
  proof (cases ev)
    case (Call now)
    consider "number_lt (expiration m) (Num 0)"
      | p where "p_client m = Some p" "number_gt (expiration m) (Num now)"
      | "refreshes now m"
      using client_cases [of m now] by blast
    then show ?thesis
    proof cases
      case 1
      then show ?thesis using Call assms by (simp add: client_persistent)
    next
      case 2
      then show ?thesis using Call assms by (simp add: client_cached)
    next
      case 3
      then show ?thesis using Call k by (simp add: client_refresh promise_state_def nth_append)
    qed
  next
    case (RoleArrives resp)
    show ?thesis
    proof (cases "iamRole m = Some RolePending")
      case True
      have "st \<noteq> AwaitRole" using assms(2) by auto
      then show ?thesis using RoleArrives k
        by (simp add: role_arrives_eq [OF True] promise_state_def)
    next
      case False
      then show ?thesis using RoleArrives assms by (simp add: role_arrives_idle)
    qed
  next
    case (CredsArrive j resp)
    show ?thesis
    proof (cases "j < length (promises m) \<and> (\<exists>r. promises m ! j = AwaitCreds r)")
      case True
      then obtain r where j: "j < length (promises m)" "promises m ! j = AwaitCreds r" by blast
      with k assms(2) have "j \<noteq> k" by auto
      then show ?thesis using CredsArrive k j
        by (cases resp) (simp_all add: creds_arrive_json creds_arrive_failed promise_state_def)
    next
      case False
      then have "creds_arrive getTime j resp m = m"
        by (auto simp: creds_arrive_def split: client_promise.splits)
      then show ?thesis using CredsArrive assms by simp
    qed
  qed
qed

lemma settled_run:
  "promise_state m (Some k) = Some st \<Longrightarrow> settled st \<Longrightarrow>
   promise_state (run getTime evs m) (Some k) = Some st"
  by (induction evs arbitrary: m) (simp_all add: settled_step)






section \<open>The persistent client\<close>

text \<open>
  C5. A manager constructed in persistent mode, after any sequence of calls and
  responses: a call returns promise 0 and leaves the manager as it is, that promise is
  fulfilled with the client built at construction, and no request has been issued.
\<close>

theorem persistent_client_is_stable:
  assumes "constructor rejects opts = Inr mgr" and "mode mgr = Persistent"
  shows "client now (run getTime evs mgr) = (Some 0, run getTime evs mgr)
    \<and> promise_state (run getTime evs mgr) (Some 0)
      = Some (Fulfilled (Ready (Client 0 opts)))
    \<and> requests (run getTime evs mgr) = []"
proof -
  note c = persistent_is_built [OF assms]
  have same: "run getTime evs mgr = mgr"
    by (rule persistent_run) (simp_all add: c persistent_manager_def fresh_def)
  have "client now mgr = (Some 0, mgr)"
    using client_persistent [of mgr now] by (simp add: c persistent_manager_def fresh_def)
  then show ?thesis
    unfolding same by (simp add: c persistent_manager_def fresh_def promise_state_def)
qed

theorem persistent_client_is_stable_witness:
  "constructor example_rejects static_options = Inr (persistent_manager static_options)
   \<and> mode (persistent_manager static_options) = Persistent
   \<and> client 9
        (run example_getTime
          [Call 5, RoleArrives RoleNotOk, CredsArrive 0 (CredsJson worker_credentials), Call 7]
          (persistent_manager static_options))
      = (Some 0,
         run example_getTime
          [Call 5, RoleArrives RoleNotOk, CredsArrive 0 (CredsJson worker_credentials), Call 7]
          (persistent_manager static_options))
   \<and> promise_state
        (run example_getTime
          [Call 5, RoleArrives RoleNotOk, CredsArrive 0 (CredsJson worker_credentials), Call 7]
          (persistent_manager static_options)) (Some 0)
      = Some (Fulfilled (Ready (Client 0 static_options)))
   \<and> requests
        (run example_getTime
          [Call 5, RoleArrives RoleNotOk, CredsArrive 0 (CredsJson worker_credentials), Call 7]
          (persistent_manager static_options)) = []"
  using persistent_client_is_stable [OF static_constructed mode_persistent_manager,
      of 9 example_getTime
      "[Call 5, RoleArrives RoleNotOk, CredsArrive 0 (CredsJson worker_credentials), Call 7]"]
    static_constructed mode_persistent_manager [of static_options]
  by blast

section \<open>The role is listed once\<close>

text \<open>
  C8. Once the role promise is fulfilled with a non-empty role name, it stays so through
  every later call and response; every request issued from then on is the credentials
  request for that role, so the number of role-listing requests no longer changes; and a
  call that starts a refresh issues exactly that one credentials request. A failed
  credentials response is one of the events covered.
\<close>

theorem role_is_fetched_once:
  assumes "iamRole m = Some (RoleFulfilled (RoleText r))" and "r \<noteq> []"
  shows "iamRole (run getTime evs m) = Some (RoleFulfilled (RoleText r))
    \<and> (\<exists>n. requests (run getTime evs m) = requests m @ replicate n (credentials_request r))
    \<and> count_list (requests (run getTime evs m)) role_listing_request
        = count_list (requests m) role_listing_request
    \<and> (refreshes now (run getTime evs m) \<longrightarrow>
         requests (snd (client now (run getTime evs m)))
           = requests (run getTime evs m) @ [credentials_request r])"
proof -
  from run_role_known [OF assms, of getTime evs] obtain n where
    a: "iamRole (run getTime evs m) = Some (RoleFulfilled (RoleText r))"
    and b: "requests (run getTime evs m) = requests m @ replicate n (credentials_request r)"
    by blast
  have "count_list (replicate n (credentials_request r)) role_listing_request = 0"
    using credentials_is_not_listing [of r] by (induction n) auto
  then have c: "count_list (requests (run getTime evs m)) role_listing_request
        = count_list (requests m) role_listing_request"
    using b by simp
  have d: "refreshes now (run getTime evs m) \<longrightarrow>
         requests (snd (client now (run getTime evs m)))
           = requests (run getTime evs m) @ [credentials_request r]"
    using a assms(2) by (simp add: client_refresh)
  from a b c d show ?thesis by blast
qed

theorem role_is_fetched_once_witness:
  "iamRole worker_manager = Some (RoleFulfilled (RoleText ''worker-role''))
   \<and> ''worker-role'' \<noteq> []
   \<and> refreshes 4070908800000
        (run example_getTime [Call 4070908800000, CredsArrive 1 (CredsFailed (FetchError ''reset''))]
          worker_manager)
   \<and> requests (snd (client 4070908800000
        (run example_getTime [Call 4070908800000, CredsArrive 1 (CredsFailed (FetchError ''reset''))]
          worker_manager)))
      = requests (run example_getTime
          [Call 4070908800000, CredsArrive 1 (CredsFailed (FetchError ''reset''))] worker_manager)
        @ [credentials_request ''worker-role'']
   \<and> count_list (requests (run example_getTime
          [Call 4070908800000, CredsArrive 1 (CredsFailed (FetchError ''reset''))] worker_manager))
        role_listing_request
      = count_list (requests worker_manager) role_listing_request"
proof -
  have h: "iamRole worker_manager = Some (RoleFulfilled (RoleText ''worker-role''))"
    by code_simp
  have n: "''worker-role'' \<noteq> []" by simp
  have f: "refreshes 4070908800000
        (run example_getTime [Call 4070908800000, CredsArrive 1 (CredsFailed (FetchError ''reset''))]
          worker_manager)"
    by code_simp
  show ?thesis
    using role_is_fetched_once [OF h n, of example_getTime
        "[Call 4070908800000, CredsArrive 1 (CredsFailed (FetchError ''reset''))]" 4070908800000]
      h f
    by blast
qed


section \<open>Expiration of the cached handle\<close>

text \<open>
  C6. A manager in dynamic mode that holds a cached handle returns it without a request
  while the cached expiration is after the current time, and starts one refresh when the
  expiration is at or before the current time. The second half fails on the code for an
  expiration before 1970: the manager constructed without keys calls \<^verbatim>\<open>client()\<close> at time
  1000, the role listing returns \<^verbatim>\<open>worker-role\<close>, and the credentials come with the
  expiration \<^verbatim>\<open>1969-12-31T23:59:59Z\<close>, parsed to -1000. A call at time 5000 finds the
  expiration at or before the current time, yet \<^verbatim>\<open>createClient\<close> leaves at its first
  line, the test for the persistent client, and returns the cached promise: no new
  promise, no request. The manager that was constructed dynamic now reads as persistent.
\<close>

theorem pre_epoch_expiration_skips_refresh:
  "constructor example_rejects iam_options = Inr (fresh iam_options)
   \<and> mode (fresh iam_options) = Dynamic
   \<and> p_client pre_epoch_manager = Some 0
   \<and> promise_state pre_epoch_manager (Some 0)
       = Some (Fulfilled (Ready (Client 0 (client_from pre_epoch_credentials))))
   \<and> expiration pre_epoch_manager = Num (- 1000)
   \<and> client 5000 pre_epoch_manager = (Some 0, pre_epoch_manager)
   \<and> requests (snd (client 5000 pre_epoch_manager)) = requests pre_epoch_manager
   \<and> mode pre_epoch_manager = Persistent"
proof -
  have a: "p_client pre_epoch_manager = Some 0" by code_simp
  have b: "promise_state pre_epoch_manager (Some 0)
       = Some (Fulfilled (Ready (Client 0 (client_from pre_epoch_credentials))))"
    by code_simp
  have c: "expiration pre_epoch_manager = Num (- 1000)" by code_simp
  have "client 5000 pre_epoch_manager = (p_client pre_epoch_manager, pre_epoch_manager)"
    by (rule client_persistent) (simp add: c)
  then have d: "client 5000 pre_epoch_manager = (Some 0, pre_epoch_manager)"
    using a by simp
  have e: "mode pre_epoch_manager = Persistent" by (simp add: mode_def c)
  from a b c d e iam_constructed [of example_rejects] mode_fresh [of iam_options]
  show ?thesis by simp
qed

text \<open>
  For an expiration that is not negative the manager does what is specified: a call
  before the expiration returns the cached promise and changes nothing; a call at or
  after it starts one refresh, with one new promise and one request, the credentials
  request for the cached role.
\<close>

lemma non_negative_expiration_refreshes_once:
  assumes "constructor rejects opts = Inr mgr" and "mode mgr = Dynamic"
    and "m = run getTime evs mgr"
    and "p_client m = Some p"
    and "promise_state m (Some p) = Some (Fulfilled (Ready c))"
    and "expiration m = Num e"
  shows "(now < e \<longrightarrow> client now m = (Some p, m))
    \<and> (0 \<le> e \<and> e \<le> now \<longrightarrow>
         (\<exists>r. r \<noteq> [] \<and> iamRole m = Some (RoleFulfilled (RoleText r)) \<and>
            client now m = (Some (length (promises m)),
              m\<lparr>p_client := Some (length (promises m)),
                promises := promises m @ [AwaitCreds r],
                requests := requests m @ [credentials_request r]\<rparr>)))"
proof -
  have "mgr = fresh opts" using assms(1,2) by (rule dynamic_is_fresh)
  with assms(3) have inv: "handles_have_role m"
    by (simp add: handles_have_role_run handles_have_role_fresh)
  from assms(5) have "p < length (promises m)" "promises m ! p = Fulfilled (Ready c)"
    by (auto simp: promise_state_def split: if_splits)
  then have "Fulfilled (Ready c) \<in> set (promises m)" by (metis nth_mem)
  moreover have "needs_role (Fulfilled (Ready c))" by simp
  ultimately have "role_known m" using inv unfolding handles_have_role_def by blast
  then obtain r where r: "r \<noteq> []" "iamRole m = Some (RoleFulfilled (RoleText r))"
    by (auto simp: role_known_def)
  have hit: "now < e \<Longrightarrow> client now m = (Some p, m)"
    using assms(4,6) by (simp add: client_cached)
  have miss: "0 \<le> e \<and> e \<le> now \<Longrightarrow> client now m = (Some (length (promises m)),
              m\<lparr>p_client := Some (length (promises m)),
                promises := promises m @ [AwaitCreds r],
                requests := requests m @ [credentials_request r]\<rparr>)"
  proof -
    assume "0 \<le> e \<and> e \<le> now"
    then have "refreshes now m" using assms(6) by (simp add: refreshes_def)
    then show ?thesis using r by (simp add: client_refresh)
  qed
  from hit miss r show ?thesis by blast
qed


section \<open>Calls that arrive together\<close>




section \<open>A role listing that yields no role\<close>

text \<open>
  C2 (amended). In dynamic mode, when the role-listing request fails (its timeout
  included), the current call is rejected with that error; when it answers without
  success, the current call is not rejected but fulfilled with \<^verbatim>\<open>false\<close>. In both cases
  no role name is cached, the settled role promise stays in the field, and through every
  later call and response no further request is issued: the next call settles the same
  way as the first.
\<close>

theorem failed_role_listing_is_memoized:
  assumes "constructor rejects opts = Inr mgr" and "mode mgr = Dynamic"
    and "resp = RoleFetchFailed e \<or> resp = RoleNotOk"
    and "m = run getTime (Call t # RoleArrives resp # evs) mgr"
  shows "fst (client t mgr) = Some 0
    \<and> promise_state m (Some 0)
        = Some (case resp of RoleFetchFailed e \<Rightarrow> Rejected e | _ \<Rightarrow> Fulfilled (Falsy RoleFalse))
    \<and> iamRole m
        = Some (case resp of RoleFetchFailed e \<Rightarrow> RoleRejected e | _ \<Rightarrow> RoleFulfilled RoleFalse)
    \<and> requests m = [role_listing_request]
    \<and> requests (snd (client t' m)) = [role_listing_request]
    \<and> promise_state (snd (client t' m)) (fst (client t' m))
        = Some (case resp of RoleFetchFailed e \<Rightarrow> Rejected e | _ \<Rightarrow> Fulfilled (Falsy RoleFalse))"
proof -
  have cf: "mgr = fresh opts" using assms(1,2) by (rule dynamic_is_fresh)
  define m1 where "m1 = snd (client t (fresh opts))"
  define rp where "rp = settle_role resp"
  have nr: "no_role rp" using assms(3) by (auto simp: rp_def)
  have st: "settled_state rp = (case resp of RoleFetchFailed e \<Rightarrow> Rejected e | _ \<Rightarrow> Fulfilled (Falsy RoleFalse))"
    using assms(3) by (auto simp: rp_def)
  have rpe: "rp = (case resp of RoleFetchFailed e \<Rightarrow> RoleRejected e | _ \<Rightarrow> RoleFulfilled RoleFalse)"
    using assms(3) by (auto simp: rp_def)
  have aw: "awaiting m1" "promises m1 = [AwaitRole]"
    using first_call_awaiting [of t opts] by (simp_all add: m1_def)
  then have "stuck rp (role_arrives resp m1)"
    unfolding rp_def using nr by (intro awaiting_then_stuck) (simp_all add: rp_def)
  then have stm: "stuck rp m"
    using nr by (simp add: assms(4) cf m1_def stuck_run)
  then have "promises m \<noteq> []" "\<forall>p \<in> set (promises m). p = settled_state rp"
    by (simp_all add: stuck_def)
  then have p0: "promise_state m (Some 0) = Some (settled_state rp)"
    by (cases "promises m") (simp_all add: promise_state_def)
  from stuck_client [OF nr stm, of t'] obtain p where
    p: "fst (client t' m) = Some p" "p < length (promises (snd (client t' m)))"
      "promises (snd (client t' m)) ! p = settled_state rp"
    and st': "stuck rp (snd (client t' m))" by blast
  from p have nxt: "promise_state (snd (client t' m)) (fst (client t' m)) = Some (settled_state rp)"
    by (simp add: promise_state_def)
  have "fst (client t mgr) = Some 0" by (simp add: cf first_call)
  moreover have "iamRole m = Some rp" "requests m = [role_listing_request]"
    using stm by (simp_all add: stuck_def)
  moreover have "requests (snd (client t' m)) = [role_listing_request]"
    using st' by (simp add: stuck_def)
  ultimately show ?thesis using p0 [unfolded st] nxt [unfolded st] by (simp add: rpe)
qed

theorem failed_role_listing_is_memoized_witness:
  "constructor example_rejects iam_options = Inr (fresh iam_options)
   \<and> mode (fresh iam_options) = Dynamic
   \<and> promise_state
        (run example_getTime
          [Call 1000, RoleArrives (RoleFetchFailed (FetchError ''network timeout'')),
           Call 2000, CredsArrive 0 (CredsJson worker_credentials)]
          (fresh iam_options)) (Some 0)
       = Some (Rejected (FetchError ''network timeout''))
   \<and> requests (snd (client 3000
        (run example_getTime
          [Call 1000, RoleArrives (RoleFetchFailed (FetchError ''network timeout'')),
           Call 2000, CredsArrive 0 (CredsJson worker_credentials)]
          (fresh iam_options))))
       = [role_listing_request]"
proof -
  have which: "RoleFetchFailed (FetchError ''network timeout'')
        = RoleFetchFailed (FetchError ''network timeout'')
      \<or> RoleFetchFailed (FetchError ''network timeout'') = RoleNotOk"
    by simp
  show ?thesis
    using failed_role_listing_is_memoized [where opts = iam_options
        and resp = "RoleFetchFailed (FetchError ''network timeout'')"
        and e = "FetchError ''network timeout''" and getTime = example_getTime and t = 1000
        and evs = "[Call 2000, CredsArrive 0 (CredsJson worker_credentials)]" and t' = 3000,
        OF iam_constructed mode_fresh which refl]
      iam_constructed [of example_rejects] mode_fresh [of iam_options]
    by simp
qed

text \<open>
  A retry of the role listing does not happen: after a failed role listing the next
  call issues no request; and after an unsuccessful answer the call is fulfilled, not
  rejected.
\<close>

theorem failed_role_listing_counterexample:
  "constructor example_rejects iam_options = Inr (fresh iam_options)
   \<and> mode (fresh iam_options) = Dynamic
   \<and> requests (run example_getTime
         [Call 1000, RoleArrives (RoleFetchFailed (FetchError ''network timeout''))]
         (fresh iam_options))
       = [role_listing_request]
   \<and> requests (run example_getTime
         [Call 1000, RoleArrives (RoleFetchFailed (FetchError ''network timeout'')), Call 2000]
         (fresh iam_options))
       = [role_listing_request]
   \<and> promise_state
        (run example_getTime [Call 1000, RoleArrives RoleNotOk] (fresh iam_options))
        (Some 0)
       = Some (Fulfilled (Falsy RoleFalse))"
proof -
  have a: "requests (run example_getTime
         [Call 1000, RoleArrives (RoleFetchFailed (FetchError ''network timeout''))]
         (fresh iam_options))
       = [role_listing_request]"
    by code_simp
  have b: "requests (run example_getTime
         [Call 1000, RoleArrives (RoleFetchFailed (FetchError ''network timeout'')), Call 2000]
         (fresh iam_options))
       = [role_listing_request]"
    by code_simp
  have c: "promise_state
        (run example_getTime [Call 1000, RoleArrives RoleNotOk] (fresh iam_options))
        (Some 0)
       = Some (Fulfilled (Falsy RoleFalse))"
    by code_simp
  from iam_constructed [of example_rejects] mode_fresh [of iam_options] a b c show ?thesis by blast
qed

text \<open>
  C3 (amended). In dynamic mode, with \<^verbatim>\<open>getObject\<close>, a method through the proxy and any
  further calls waiting: when the role listing answers without success, no waiter is
  rejected, every promise is fulfilled with \<^verbatim>\<open>false\<close>, \<^verbatim>\<open>getObject\<close> resolves to that
  empty value and the proxy looks the method up on \<^verbatim>\<open>false\<close>; when the role-listing
  request fails, every promise is rejected with its error and both forwarded operations
  fail with that same error. In neither case is a method of a storage client invoked or
  a credentials request issued.
\<close>

theorem absent_role_is_an_empty_result:
  assumes "constructor rejects opts = Inr mgr" and "mode mgr = Dynamic"
    and "getObject t1 a1 mgr = (res1, m1)"
    and "proxy_method t2 sKey a2 m1 = (res2, m2)"
    and "calls ts m2 = (ps, m3)"
  shows "(\<forall>p \<in> set (promises (role_arrives RoleNotOk m3)). p = Fulfilled (Falsy RoleFalse))
    \<and> res1 (role_arrives RoleNotOk m3) = Empty RoleFalse
    \<and> res2 (role_arrives RoleNotOk m3) = OnPrimitive RoleFalse sKey
    \<and> (\<forall>p \<in> set (promises (role_arrives (RoleFetchFailed e) m3)). p = Rejected e)
    \<and> res1 (role_arrives (RoleFetchFailed e) m3) = Failed e
    \<and> res2 (role_arrives (RoleFetchFailed e) m3) = Failed e
    \<and> requests (role_arrives RoleNotOk m3) = [role_listing_request]
    \<and> requests (role_arrives (RoleFetchFailed e) m3) = [role_listing_request]"
proof -
  have cf: "mgr = fresh opts" using assms(1,2) by (rule dynamic_is_fresh)
  have r1: "res1 = observe (getObject_then a1) (Some 0)" and m1: "m1 = snd (client t1 (fresh opts))"
    using assms(3) by (auto simp: getObject_def cf first_call)
  have aw1: "awaiting m1" and l1: "0 < length (promises m1)"
    using first_call_awaiting [of t1 opts] by (simp_all add: m1)
  have r2: "res2 = observe (proxy_then sKey a2) (fst (client t2 m1))" and m2: "m2 = snd (client t2 m1)"
    using assms(4) by (auto simp: proxy_method_def split_def Let_def)
  from awaiting_client [OF aw1, of t2] obtain k where
    aw2: "awaiting m2" and k: "fst (client t2 m1) = Some k" "k < length (promises m2)"
    and l2: "length (promises m1) \<le> length (promises m2)"
    by (auto simp: m2)
  have m3: "m3 = snd (calls ts m2)" using assms(5) by simp
  from awaiting_calls [OF aw2, of ts] have aw3: "awaiting m3"
    and l3: "length (promises m2) \<le> length (promises m3)"
    by (simp_all add: m3)
  have ne: "promises m3 \<noteq> []" using l1 l2 l3 by auto
  have zero: "0 < length (promises m3)" and kk: "k < length (promises m3)"
    using l1 l2 l3 k by auto
  note ra = awaiting_role_arrives [OF aw3 ne]
  have A: "\<forall>p \<in> set (promises (role_arrives RoleNotOk m3)). p = Fulfilled (Falsy RoleFalse)"
    using ra(3) [of RoleNotOk] by simp
  have B: "\<forall>p \<in> set (promises (role_arrives (RoleFetchFailed e) m3)). p = Rejected e"
    using ra(3) [of "RoleFetchFailed e"] by simp
  have "res1 (role_arrives RoleNotOk m3) = Empty RoleFalse"
    unfolding r1 using zero A ra(2) [of RoleNotOk]
    by (subst observe_settled [where k = 0 and st = "Fulfilled (Falsy RoleFalse)"]) simp_all
  moreover have "res2 (role_arrives RoleNotOk m3) = OnPrimitive RoleFalse sKey"
    unfolding r2 using kk k A ra(2) [of RoleNotOk]
    by (subst observe_settled [where k = k and st = "Fulfilled (Falsy RoleFalse)"]) simp_all
  moreover have "res1 (role_arrives (RoleFetchFailed e) m3) = Failed e"
    unfolding r1 using zero B ra(2) [of "RoleFetchFailed e"]
    by (subst observe_settled [where k = 0 and st = "Rejected e"]) simp_all
  moreover have "res2 (role_arrives (RoleFetchFailed e) m3) = Failed e"
    unfolding r2 using kk k B ra(2) [of "RoleFetchFailed e"]
    by (subst observe_settled [where k = k and st = "Rejected e"]) simp_all
  moreover have "requests (role_arrives RoleNotOk m3) = [role_listing_request]"
    using ra(4) [of RoleNotOk] by simp
  moreover have "requests (role_arrives (RoleFetchFailed e) m3) = [role_listing_request]"
    using ra(4) [of "RoleFetchFailed e"] by simp
  ultimately show ?thesis using A B by blast
qed

theorem absent_role_is_an_empty_result_witness:
  "constructor example_rejects iam_options = Inr (fresh iam_options)
   \<and> mode (fresh iam_options) = Dynamic
   \<and> fst (getObject 1000 [''bucket'', ''key''] (fresh iam_options))
        (role_arrives RoleNotOk
          (snd (calls [1002]
            (snd (proxy_method 1001 ''listObjects'' [''bucket'', ''prefix'']
              (snd (getObject 1000 [''bucket'', ''key''] (fresh iam_options))))))))
       = Empty RoleFalse
   \<and> fst (proxy_method 1001 ''listObjects'' [''bucket'', ''prefix'']
          (snd (getObject 1000 [''bucket'', ''key''] (fresh iam_options))))
        (role_arrives (RoleFetchFailed (FetchError ''network timeout''))
          (snd (calls [1002]
            (snd (proxy_method 1001 ''listObjects'' [''bucket'', ''prefix'']
              (snd (getObject 1000 [''bucket'', ''key''] (fresh iam_options))))))))
       = Failed (FetchError ''network timeout'')"
proof -
  have a: "getObject 1000 [''bucket'', ''key''] (fresh iam_options)
      = (fst (getObject 1000 [''bucket'', ''key''] (fresh iam_options)),
         snd (getObject 1000 [''bucket'', ''key''] (fresh iam_options)))"
    by simp
  have b: "proxy_method 1001 ''listObjects'' [''bucket'', ''prefix'']
          (snd (getObject 1000 [''bucket'', ''key''] (fresh iam_options)))
      = (fst (proxy_method 1001 ''listObjects'' [''bucket'', ''prefix'']
          (snd (getObject 1000 [''bucket'', ''key''] (fresh iam_options)))),
         snd (proxy_method 1001 ''listObjects'' [''bucket'', ''prefix'']
          (snd (getObject 1000 [''bucket'', ''key''] (fresh iam_options)))))"
    by simp
  have c: "calls [1002] (snd (proxy_method 1001 ''listObjects'' [''bucket'', ''prefix'']
          (snd (getObject 1000 [''bucket'', ''key''] (fresh iam_options)))))
      = (fst (calls [1002] (snd (proxy_method 1001 ''listObjects'' [''bucket'', ''prefix'']
          (snd (getObject 1000 [''bucket'', ''key''] (fresh iam_options)))))),
         snd (calls [1002] (snd (proxy_method 1001 ''listObjects'' [''bucket'', ''prefix'']
          (snd (getObject 1000 [''bucket'', ''key''] (fresh iam_options)))))))"
    by simp
  show ?thesis
    using absent_role_is_an_empty_result [OF iam_constructed mode_fresh a b c,
        of "FetchError ''network timeout''"]
      iam_constructed [of example_rejects] mode_fresh [of iam_options]
    by blast
qed

text \<open>
  A failure is not what an absent role gives: with the role listing answered without
  success the promise is fulfilled, not rejected, and \<^verbatim>\<open>getObject\<close> resolves to the
  empty value.
\<close>

theorem absent_role_counterexample:
  "constructor example_rejects iam_options = Inr (fresh iam_options)
   \<and> mode (fresh iam_options) = Dynamic
   \<and> promises (role_arrives RoleNotOk
        (snd (getObject 1000 [''bucket'', ''key''] (fresh iam_options))))
       = [Fulfilled (Falsy RoleFalse)]
   \<and> fst (getObject 1000 [''bucket'', ''key''] (fresh iam_options))
        (role_arrives RoleNotOk
          (snd (getObject 1000 [''bucket'', ''key''] (fresh iam_options))))
       = Empty RoleFalse"
proof -
  have a: "promises (role_arrives RoleNotOk
        (snd (getObject 1000 [''bucket'', ''key''] (fresh iam_options))))
       = [Fulfilled (Falsy RoleFalse)]"
    by code_simp
  have b: "fst (getObject 1000 [''bucket'', ''key''] (fresh iam_options))
        (role_arrives RoleNotOk
          (snd (getObject 1000 [''bucket'', ''key''] (fresh iam_options))))
       = Empty RoleFalse"
    by code_simp
  from iam_constructed [of example_rejects] mode_fresh [of iam_options] a b show ?thesis by blast
qed


section \<open>From credentials to the client\<close>

text \<open>
  C7. In dynamic mode, after one call, a role listing that returns a non-empty role name
  and a credentials response with the four fields, the promise the call returned is
  fulfilled with a client built from the returned access key, secret key and session
  token on the endpoint \<^verbatim>\<open>s3.amazonaws.com\<close>; the expiration of the manager is the
  parsed time of the returned expiration string; the two requests issued are the role
  listing and the credentials request of that role. The same holds for the credentials
  response of any promise that awaits one.
\<close>

theorem credentials_become_the_handle:
  assumes "constructor rejects opts = Inr mgr" and "mode mgr = Dynamic" and "role \<noteq> []"
    and "m = run getTime [Call now, RoleArrives (RoleOk role), CredsArrive 0 (CredsJson md)]
               mgr"
  shows "fst (client now mgr) = Some 0
    \<and> promise_state m (Some 0) = Some (Fulfilled (Ready (Client 0
          \<lparr>endPoint = ''s3.amazonaws.com'', accessKey = AccessKeyId md,
           secretKey = SecretAccessKey md, useSSL = None, port = None, region = None,
           sessionToken = Some (Token md)\<rparr>)))
    \<and> expiration m = getTime (Expiration md)
    \<and> requests m = [role_listing_request, credentials_request role]
    \<and> (\<forall>m' k r. promise_state m' (Some k) = Some (AwaitCreds r) \<longrightarrow>
          expiration (creds_arrive getTime k (CredsJson md) m') = getTime (Expiration md)
          \<and> promise_state (creds_arrive getTime k (CredsJson md) m') (Some k)
              = Some (Fulfilled (Ready (Client (clients_made m')
                  \<lparr>endPoint = ''s3.amazonaws.com'', accessKey = AccessKeyId md,
                   secretKey = SecretAccessKey md, useSSL = None, port = None, region = None,
                   sessionToken = Some (Token md)\<rparr>))))"
proof -
  have cf: "mgr = fresh opts" using assms(1,2) by (rule dynamic_is_fresh)
  define m1 where "m1 = snd (client now (fresh opts))"
  have m1: "m1 = (fresh opts)\<lparr>iamRole := Some RolePending, p_client := Some 0,
        promises := [AwaitRole], requests := [role_listing_request]\<rparr>"
    by (simp add: m1_def first_call)
  have pend: "iamRole m1 = Some RolePending" by (simp add: m1)
  define m2 where "m2 = role_arrives (RoleOk role) m1"
  have m2: "m2 = (fresh opts)\<lparr>iamRole := Some (RoleFulfilled (RoleText role)), p_client := Some 0,
        promises := [AwaitCreds role], requests := [role_listing_request, credentials_request role]\<rparr>"
    unfolding m2_def using assms(3) by (subst role_arrives_eq [OF pend]) (simp add: m1)
  have gen: "\<And>m' k r. promise_state m' (Some k) = Some (AwaitCreds r) \<Longrightarrow>
          expiration (creds_arrive getTime k (CredsJson md) m') = getTime (Expiration md)
          \<and> promise_state (creds_arrive getTime k (CredsJson md) m') (Some k)
              = Some (Fulfilled (Ready (Client (clients_made m') (client_from md))))"
  proof -
    fix m' k r assume "promise_state m' (Some k) = Some (AwaitCreds r)"
    then have "k < length (promises m')" "promises m' ! k = AwaitCreds r"
      by (auto simp: promise_state_def split: if_splits)
    from creds_arrive_json [OF this, of getTime md] \<open>k < length (promises m')\<close>
    show "expiration (creds_arrive getTime k (CredsJson md) m') = getTime (Expiration md)
          \<and> promise_state (creds_arrive getTime k (CredsJson md) m') (Some k)
              = Some (Fulfilled (Ready (Client (clients_made m') (client_from md))))"
      by (simp add: promise_state_def)
  qed
  have m: "m = creds_arrive getTime 0 (CredsJson md) m2"
    by (simp add: assms(4) cf m2_def m1_def)
  have "promise_state m2 (Some 0) = Some (AwaitCreds role)" by (simp add: m2 promise_state_def)
  from gen [OF this] have "expiration m = getTime (Expiration md)"
    "promise_state m (Some 0) = Some (Fulfilled (Ready (Client 0 (client_from md))))"
    by (simp_all add: m) (simp add: m2 fresh_def)
  moreover have "requests m = [role_listing_request, credentials_request role]"
    by (simp add: m creds_arrive_fields) (simp add: m2)
  moreover have "fst (client now mgr) = Some 0" by (simp add: cf first_call)
  ultimately show ?thesis using gen by (simp add: client_from_def)
qed

theorem credentials_become_the_handle_witness:
  "constructor example_rejects iam_options = Inr (fresh iam_options)
   \<and> mode (fresh iam_options) = Dynamic
   \<and> promise_state worker_manager (Some 0) = Some (Fulfilled (Ready (Client 0
          \<lparr>endPoint = ''s3.amazonaws.com'', accessKey = ''AK1'', secretKey = ''SK1'',
           useSSL = None, port = None, region = None, sessionToken = Some ''TK1''\<rparr>)))
   \<and> expiration worker_manager = Num 4070908800000
   \<and> requests worker_manager = [role_listing_request, credentials_request ''worker-role'']"
proof -
  have role: "''worker-role'' \<noteq> []" by simp
  show ?thesis
    using credentials_become_the_handle [where opts = iam_options and role = "''worker-role''"
        and getTime = example_getTime and now = 1000 and md = worker_credentials
        and m = worker_manager, OF iam_constructed mode_fresh role worker_manager_def]
      iam_constructed [of example_rejects] mode_fresh [of iam_options]
    by (simp add: worker_credentials_def example_getTime_def)
qed

section \<open>Forwarding\<close>

text \<open>
  C9 (amended). A method invoked through the proxy, and \<^verbatim>\<open>getObject\<close>, call \<^verbatim>\<open>client()\<close>
  exactly once and do nothing else to the manager. While the returned promise is
  pending the operation waits. Once the promise is fulfilled with a client, the method
  of the given name runs on that client with the given arguments, and it runs in no
  other case. If the promise is rejected, the forwarded operation fails with the same
  error and the storage method never runs. If the promise is fulfilled with a falsy
  value, because no role was found, the storage method never runs either, but the
  operation does not fail with an error of the resolution: \<^verbatim>\<open>getObject\<close> resolves to
  the falsy value, and the proxy looks the method up on the falsy value instead of a
  client. What the operation came to stays through every later sequence of calls and
  responses: nothing is retried.
\<close>

theorem forwarder_relays_a_failed_resolution:
  assumes "proxy_method now sKey args m = (res, m1)"
    and "getObject now args m = (res', m1')"
  shows "m1 = snd (client now m) \<and> m1' = snd (client now m)
    \<and> (\<forall>m2 c evs. promise_state m2 (fst (client now m)) = Some (Fulfilled (Ready c)) \<longrightarrow>
          res (run getTime evs m2) = Invoked c sKey args
          \<and> res' (run getTime evs m2) = Invoked c ''getObject'' args)
    \<and> (\<forall>m2 c k a. res m2 = Invoked c k a \<longrightarrow>
          promise_state m2 (fst (client now m)) = Some (Fulfilled (Ready c))
          \<and> k = sKey \<and> a = args)
    \<and> (\<forall>m2 c k a. res' m2 = Invoked c k a \<longrightarrow>
          promise_state m2 (fst (client now m)) = Some (Fulfilled (Ready c))
          \<and> k = ''getObject'' \<and> a = args)
    \<and> (\<forall>m2 e evs. promise_state m2 (fst (client now m)) = Some (Rejected e) \<longrightarrow>
          res (run getTime evs m2) = Failed e \<and> res' (run getTime evs m2) = Failed e)
    \<and> (\<forall>m2 r evs. promise_state m2 (fst (client now m)) = Some (Fulfilled (Falsy r)) \<longrightarrow>
          res (run getTime evs m2) = OnPrimitive r sKey
          \<and> res' (run getTime evs m2) = Empty r)
    \<and> (\<forall>m2 r. promise_state m2 (fst (client now m)) = Some AwaitRole
            \<or> promise_state m2 (fst (client now m)) = Some (AwaitCreds r) \<longrightarrow>
          res m2 = Waiting \<and> res' m2 = Waiting)"
proof -
  have r: "res = observe (proxy_then sKey args) (fst (client now m))" "m1 = snd (client now m)"
    using assms(1) by (auto simp: proxy_method_def split_def Let_def)
  have r': "res' = observe (getObject_then args) (fst (client now m))" "m1' = snd (client now m)"
    using assms(2) by (auto simp: getObject_def split_def Let_def)
  have stays: "\<And>m2 st evs. promise_state m2 (fst (client now m)) = Some st \<Longrightarrow> settled st \<Longrightarrow>
      res (run getTime evs m2) = proxy_then sKey args st
      \<and> res' (run getTime evs m2) = getObject_then args st"
  proof -
    fix m2 st evs
    assume at: "promise_state m2 (fst (client now m)) = Some st" and fin: "settled st"
    then obtain k where k: "fst (client now m) = Some k"
      by (cases "fst (client now m)") (simp_all add: promise_state_def)
    have "promise_state (run getTime evs m2) (Some k) = Some st"
      using at fin unfolding k by (rule settled_run)
    then show "res (run getTime evs m2) = proxy_then sKey args st
      \<and> res' (run getTime evs m2) = getObject_then args st"
      unfolding r r' k by (simp add: observe_def)
  qed
  have success: "\<forall>m2 c evs. promise_state m2 (fst (client now m)) = Some (Fulfilled (Ready c)) \<longrightarrow>
          res (run getTime evs m2) = Invoked c sKey args
          \<and> res' (run getTime evs m2) = Invoked c ''getObject'' args"
    using stays [where st = "Fulfilled (Ready c)" for c] by simp
  have invoked: "\<forall>m2 c k a. res m2 = Invoked c k a \<longrightarrow>
          promise_state m2 (fst (client now m)) = Some (Fulfilled (Ready c))
          \<and> k = sKey \<and> a = args"
    unfolding r by (auto simp: observe_def proxy_then_cases split: option.splits)
  have invoked': "\<forall>m2 c k a. res' m2 = Invoked c k a \<longrightarrow>
          promise_state m2 (fst (client now m)) = Some (Fulfilled (Ready c))
          \<and> k = ''getObject'' \<and> a = args"
    unfolding r' by (auto simp: observe_def proxy_then_cases split: option.splits)
  have rejected: "\<forall>m2 e evs. promise_state m2 (fst (client now m)) = Some (Rejected e) \<longrightarrow>
          res (run getTime evs m2) = Failed e \<and> res' (run getTime evs m2) = Failed e"
    using stays [where st = "Rejected e" for e] by simp
  have falsy: "\<forall>m2 r evs. promise_state m2 (fst (client now m)) = Some (Fulfilled (Falsy r)) \<longrightarrow>
          res (run getTime evs m2) = OnPrimitive r sKey
          \<and> res' (run getTime evs m2) = Empty r"
    using stays [where st = "Fulfilled (Falsy r)" for r] by simp
  have pending: "\<forall>m2 r. promise_state m2 (fst (client now m)) = Some AwaitRole
            \<or> promise_state m2 (fst (client now m)) = Some (AwaitCreds r) \<longrightarrow>
          res m2 = Waiting \<and> res' m2 = Waiting"
    unfolding r r' by (auto simp: observe_def)
  from r(2) r'(2) success invoked invoked' rejected falsy pending show ?thesis by blast
qed

theorem forwarder_relays_a_failed_resolution_witness:
  "promise_state
      (role_arrives (RoleFetchFailed (FetchError ''network timeout''))
        (snd (client 1000 (fresh iam_options))))
      (fst (client 1000 (fresh iam_options)))
     = Some (Rejected (FetchError ''network timeout''))
   \<and> fst (proxy_method 1000 ''listObjects'' [''bucket'', ''prefix''] (fresh iam_options))
        (run example_getTime [Call 2000]
          (role_arrives (RoleFetchFailed (FetchError ''network timeout''))
            (snd (client 1000 (fresh iam_options)))))
     = Failed (FetchError ''network timeout'')
   \<and> promise_state worker_manager (fst (client 1000 (fresh iam_options)))
     = Some (Fulfilled (Ready (Client 0 (client_from worker_credentials))))
   \<and> fst (proxy_method 1000 ''listObjects'' [''bucket'', ''prefix''] (fresh iam_options))
        (run example_getTime [Call 2000] worker_manager)
     = Invoked (Client 0 (client_from worker_credentials)) ''listObjects''
         [''bucket'', ''prefix'']
   \<and> snd (proxy_method 1000 ''listObjects'' [''bucket'', ''prefix''] (fresh iam_options))
     = snd (client 1000 (fresh iam_options))"
proof -
  have a: "proxy_method 1000 ''listObjects'' [''bucket'', ''prefix''] (fresh iam_options)
      = (fst (proxy_method 1000 ''listObjects'' [''bucket'', ''prefix''] (fresh iam_options)),
         snd (proxy_method 1000 ''listObjects'' [''bucket'', ''prefix''] (fresh iam_options)))"
    by simp
  have b: "getObject 1000 [''bucket'', ''prefix''] (fresh iam_options)
      = (fst (getObject 1000 [''bucket'', ''prefix''] (fresh iam_options)),
         snd (getObject 1000 [''bucket'', ''prefix''] (fresh iam_options)))"
    by simp
  have c: "promise_state
      (role_arrives (RoleFetchFailed (FetchError ''network timeout''))
        (snd (client 1000 (fresh iam_options))))
      (fst (client 1000 (fresh iam_options)))
     = Some (Rejected (FetchError ''network timeout''))"
    by code_simp
  have d: "promise_state worker_manager (fst (client 1000 (fresh iam_options)))
     = Some (Fulfilled (Ready (Client 0 (client_from worker_credentials))))"
    by code_simp
  show ?thesis
    using forwarder_relays_a_failed_resolution [OF a b, where getTime = example_getTime] c d
    by blast
qed

text \<open>
  With no role found the resolution gives no client, yet neither forwarder fails with
  an error of the resolution: the promise is fulfilled, \<^verbatim>\<open>getObject\<close> resolves to
  \<^verbatim>\<open>false\<close>, and the proxy looks \<^verbatim>\<open>listObjects\<close> up on \<^verbatim>\<open>false\<close>.
\<close>

theorem forwarder_without_client_counterexample:
  "constructor example_rejects iam_options = Inr (fresh iam_options)
   \<and> promise_state
        (role_arrives RoleNotOk (snd (client 1000 (fresh iam_options))))
        (fst (client 1000 (fresh iam_options)))
       = Some (Fulfilled (Falsy RoleFalse))
   \<and> fst (getObject 1000 [''bucket'', ''key''] (fresh iam_options))
        (role_arrives RoleNotOk
          (snd (getObject 1000 [''bucket'', ''key''] (fresh iam_options))))
       = Empty RoleFalse
   \<and> fst (proxy_method 1000 ''listObjects'' [''bucket'', ''prefix''] (fresh iam_options))
        (role_arrives RoleNotOk
          (snd (proxy_method 1000 ''listObjects'' [''bucket'', ''prefix'']
            (fresh iam_options))))
       = OnPrimitive RoleFalse ''listObjects''"
proof -
  have a: "promise_state
        (role_arrives RoleNotOk (snd (client 1000 (fresh iam_options))))
        (fst (client 1000 (fresh iam_options)))
       = Some (Fulfilled (Falsy RoleFalse))"
    by code_simp
  have b: "fst (getObject 1000 [''bucket'', ''key''] (fresh iam_options))
        (role_arrives RoleNotOk
          (snd (getObject 1000 [''bucket'', ''key''] (fresh iam_options))))
       = Empty RoleFalse"
    by code_simp
  have c: "fst (proxy_method 1000 ''listObjects'' [''bucket'', ''prefix''] (fresh iam_options))
        (role_arrives RoleNotOk
          (snd (proxy_method 1000 ''listObjects'' [''bucket'', ''prefix'']
            (fresh iam_options))))
       = OnPrimitive RoleFalse ''listObjects''"
    by code_simp
  from iam_constructed [of example_rejects] a b c show ?thesis by blast
qed

end
